theory Spec2Isabelle
  imports Main "HOL-Library.Word" "HOL-Library.Multiset"
begin

section \<open>Transparency-log verification of sigstore-go (pkg/verify/tlog.go)\<close>

text \<open>
  The development embeds \<^verbatim>\<open>VerifyArtifactTransparencyLog\<close> of
  \<^verbatim>\<open>src/pkg/verify/tlog.go\<close>. Everything the function calls outside its own file
  (the entity's accessors, structural validation, SET and inclusion-proof verification,
  verifier loading, the Rekor client and the remote record check) is a parameter of the
  model: a field of a record that holds the value, or the function, the Go code would
  obtain. A Go \<^verbatim>\<open>error\<close> result is a value of a sum or option type, so every
  \<^verbatim>\<open>return nil, err\<close> of the source is a branch of the model.
\<close>

subsection \<open>Data\<close>

type_synonym bytes = "8 word list"

text \<open>
  \<^verbatim>\<open>tlog.Entry\<close> as seen through the accessor methods the function calls. \<open>Body\<close>
  stands for the remaining content of an entry, which only the collaborators read.
  \<open>IntegratedTime\<close> is a \<^verbatim>\<open>time.Time\<close>, taken as seconds since the epoch;
  \<open>LogIndex\<close> is an \<^verbatim>\<open>int64\<close>; \<open>LogKeyID\<close> is a Go string, a sequence of bytes.
\<close>

record Entry =
  LogKeyID :: string
  LogIndex :: "64 word"
  IntegratedTime :: int
  Signature :: bytes
  PublicKey :: bytes
  HasInclusionPromise :: bool
  HasInclusionProof :: bool
  Body :: bytes

text \<open>\<^verbatim>\<open>root.TransparencyLog\<close>: the three fields the function reads.\<close>

record TransparencyLog =
  BaseURL :: string
  PublicKey_tl :: bytes
  SignatureHashFunc :: nat

text \<open>
  \<^verbatim>\<open>root.TrustedMaterial\<close>: \<open>RekorLogs\<close> is the Go map from hex-encoded log key id to
  the log's record. The method is called twice per entry (lines 88 and 91) and is taken
  to return the same map each time. The map's values are Go pointers; the model holds
  the records themselves, so a nil pointer stored in the map is outside the model.
\<close>

record TrustedMaterial =
  RekorLogs :: "string \<rightharpoonup> TransparencyLog"

text \<open>\<^verbatim>\<open>VerificationContent\<close>: the two methods the function calls.\<close>

record VerificationContent =
  CompareKey :: "bytes \<Rightarrow> TrustedMaterial \<Rightarrow> bool"
  ValidAtTime :: "int \<Rightarrow> TrustedMaterial \<Rightarrow> bool"

text \<open>
  \<^verbatim>\<open>SignedEntity\<close>: what its three accessors return, an error message on the left.
  \<open>SignatureContent\<close> holds the bytes of \<^verbatim>\<open>sigContent.Signature()\<close>.
\<close>

record SignedEntity =
  TlogEntries :: "string + Entry list"
  SignatureContent :: "string + bytes"
  VerificationContent :: "string + VerificationContent"

record Timestamp =
  Time :: int
  URI :: string

text \<open>
  The errors the function returns: those it builds itself, one constructor for each
  \<^verbatim>\<open>errors.New\<close> or \<^verbatim>\<open>fmt.Errorf\<close> with its arguments, and \<open>Propagated\<close> for an
  error it received from a collaborator and returns unchanged.
\<close>

datatype error =
    Propagated string
  | TooManyEntries nat nat
  | DuplicateEntries
  | MissingInclusion
  | EntryNotFound "64 word"
  | SignatureMismatch
  | CertificateMismatch
  | TimeOutsideValidity
  | NotEnoughEntries int int

text \<open>
  The package-level collaborators. \<open>'v\<close> is \<^verbatim>\<open>signature.Verifier\<close>, \<open>'c\<close> the Rekor
  client and \<open>'r\<close> a record of a remote response (\<^verbatim>\<open>models.LogEntryAnon\<close>); the
  function only passes them on. \<open>None\<close> is a nil error. \<open>GetLogEntryByIndex\<close> returns
  the response's payload, a Go map, as the list of its values in the order the
  \<^verbatim>\<open>range\<close> loop of line 147 visits them. Each collaborator is a function of its
  arguments: asked twice the same question, it gives the same answer.
\<close>

record ('v, 'c, 'r) Collaborators =
  ValidateEntry :: "Entry \<Rightarrow> string option"
  VerifySET :: "Entry \<Rightarrow> (string \<rightharpoonup> TransparencyLog) \<Rightarrow> string option"
  LoadVerifier :: "bytes \<Rightarrow> nat \<Rightarrow> string + 'v"
  VerifyInclusion :: "Entry \<Rightarrow> 'v \<Rightarrow> string option"
  RekorClientGetter :: "string \<Rightarrow> string + 'c"
  GetLogEntryByIndex :: "'c \<Rightarrow> 64 word \<Rightarrow> string + 'r list"
  VerifyLogEntry :: "'r \<Rightarrow> 'v \<Rightarrow> string option"

text \<open>The two local variables the loop of line 82 updates.\<close>

record LoopState =
  verifiedTimestamps :: "Timestamp list"
  logEntriesVerified :: int

subsection \<open>Operations\<close>

definition maxAllowedTlogEntries :: nat where
  "maxAllowedTlogEntries = 32"

text \<open>\<^verbatim>\<open>hex.EncodeToString\<close> of the Go library: two lower-case digits for each byte.\<close>

definition hextable :: string where
  "hextable = ''0123456789abcdef''"

definition EncodeToString :: "string \<Rightarrow> string" where
  "EncodeToString src =
     concat (map (\<lambda>v. [hextable ! (of_char v div 16), hextable ! (of_char v mod 16)]) src)"

text \<open>Lines 59 to 65: the inner loop over \<open>j > i\<close>, then the outer loop over \<open>i\<close>.\<close>

fun duplicateOf :: "Entry \<Rightarrow> Entry list \<Rightarrow> bool" where
  "duplicateOf e [] = False"
| "duplicateOf e (x # xs) =
     (if LogKeyID e = LogKeyID x \<and> LogIndex e = LogIndex x then True
      else duplicateOf e xs)"

fun hasDuplicates :: "Entry list \<Rightarrow> bool" where
  "hasDuplicates [] = False"
| "hasDuplicates (e # es) = (if duplicateOf e es then True else hasDuplicates es)"

text \<open>Lines 186 to 193.\<close>

definition getVerifier :: "('v, 'c, 'r) Collaborators \<Rightarrow> bytes \<Rightarrow> nat \<Rightarrow> error + 'v" where
  "getVerifier c publicKey hashFunc =
     (case LoadVerifier c publicKey hashFunc of
        Inl err \<Rightarrow> Inl (Propagated err)
      | Inr verifier \<Rightarrow> Inr verifier)"

text \<open>
  Lines 100 to 109, the inclusion promise. \<open>None\<close> is the \<^verbatim>\<open>continue\<close> of line 104;
  otherwise the result is the timestamp list after line 108.
\<close>

definition verifyPromise ::
  "('v, 'c, 'r) Collaborators \<Rightarrow> TrustedMaterial \<Rightarrow> TransparencyLog \<Rightarrow> bool \<Rightarrow>
   Timestamp list \<Rightarrow> Entry \<Rightarrow> Timestamp list option" where
  "verifyPromise c trustedMaterial tlogVerifier trustIntegratedTime ts entry =
     (if HasInclusionPromise entry then
        (case VerifySET c entry (RekorLogs trustedMaterial) of
           Some err \<Rightarrow> None
         | None \<Rightarrow>
             if trustIntegratedTime
             then Some (ts @ [\<lparr>Time = IntegratedTime entry, URI = BaseURL tlogVerifier\<rparr>])
             else Some ts)
      else Some ts)"

text \<open>Lines 110 to 121, the inclusion proof: the error returned, if any.\<close>

definition verifyProof ::
  "('v, 'c, 'r) Collaborators \<Rightarrow> TransparencyLog \<Rightarrow> Entry \<Rightarrow> error option" where
  "verifyProof c tlogVerifier entry =
     (if HasInclusionProof entry then
        (case getVerifier c (PublicKey_tl tlogVerifier) (SignatureHashFunc tlogVerifier) of
           Inl err \<Rightarrow> Some err
         | Inr verifier \<Rightarrow>
             (case VerifyInclusion c entry verifier of
                Some err \<Rightarrow> Some (Propagated err)
              | None \<Rightarrow> None))
      else None)"

text \<open>
  Lines 97 to 121, the offline branch: an error, \<open>Inr None\<close> for \<^verbatim>\<open>continue\<close>, or the
  timestamp list with which the entry goes on to the consistency checks.
\<close>

definition verifyOffline ::
  "('v, 'c, 'r) Collaborators \<Rightarrow> TrustedMaterial \<Rightarrow> TransparencyLog \<Rightarrow> bool \<Rightarrow>
   Timestamp list \<Rightarrow> Entry \<Rightarrow> error + Timestamp list option" where
  "verifyOffline c trustedMaterial tlogVerifier trustIntegratedTime ts entry =
     (if \<not> HasInclusionPromise entry \<and> \<not> HasInclusionProof entry then Inl MissingInclusion
      else
        (case verifyPromise c trustedMaterial tlogVerifier trustIntegratedTime ts entry of
           None \<Rightarrow> Inr None
         | Some ts' \<Rightarrow>
             (case verifyProof c tlogVerifier entry of
                Some err \<Rightarrow> Inl err
              | None \<Rightarrow> Inr (Some ts'))))"

text \<open>Lines 147 to 153: every record of the payload is checked, the first error returned.\<close>

fun verifyPayload :: "('v, 'c, 'r) Collaborators \<Rightarrow> 'r list \<Rightarrow> 'v \<Rightarrow> error option" where
  "verifyPayload c [] verifier = None"
| "verifyPayload c (v # vs) verifier =
     (case VerifyLogEntry c v verifier of
        Some err \<Rightarrow> Some (Propagated err)
      | None \<Rightarrow> verifyPayload c vs verifier)"

text \<open>Lines 123 to 156, the online branch. It has no \<^verbatim>\<open>continue\<close>.\<close>

definition verifyOnline ::
  "('v, 'c, 'r) Collaborators \<Rightarrow> TransparencyLog \<Rightarrow> bool \<Rightarrow>
   Timestamp list \<Rightarrow> Entry \<Rightarrow> error + Timestamp list" where
  "verifyOnline c tlogVerifier trustIntegratedTime ts entry =
     (case RekorClientGetter c (BaseURL tlogVerifier) of
        Inl err \<Rightarrow> Inl (Propagated err)
      | Inr client \<Rightarrow>
          (case getVerifier c (PublicKey_tl tlogVerifier) (SignatureHashFunc tlogVerifier) of
             Inl err \<Rightarrow> Inl err
           | Inr verifier \<Rightarrow>
               (case GetLogEntryByIndex c client (LogIndex entry) of
                  Inl err \<Rightarrow> Inl (Propagated err)
                | Inr payload \<Rightarrow>
                    if length payload = 0 then Inl (EntryNotFound (LogIndex entry))
                    else
                      (case verifyPayload c payload verifier of
                         Some err \<Rightarrow> Inl err
                       | None \<Rightarrow>
                           if trustIntegratedTime
                           then Inr (ts @ [\<lparr>Time = IntegratedTime entry,
                                            URI = BaseURL tlogVerifier\<rparr>])
                           else Inr ts))))"

text \<open>Lines 158 to 173, the three consistency checks: the error returned, if any.\<close>

definition checkConsistency ::
  "bytes \<Rightarrow> VerificationContent \<Rightarrow> TrustedMaterial \<Rightarrow> Entry \<Rightarrow> error option" where
  "checkConsistency entitySignature verificationContent trustedMaterial entry =
     (if Signature entry \<noteq> entitySignature then Some SignatureMismatch
      else if \<not> CompareKey verificationContent (PublicKey entry) trustedMaterial
      then Some CertificateMismatch
      else if \<not> ValidAtTime verificationContent (IntegratedTime entry) trustedMaterial
      then Some TimeOutsideValidity
      else None)"

text \<open>
  Lines 83 to 176, the body of the loop for one entry. \<open>Inr st\<close> with the state
  unchanged is a \<^verbatim>\<open>continue\<close>; \<open>Inl\<close> is a \<^verbatim>\<open>return nil, err\<close>.
\<close>

definition verifyEntry ::
  "('v, 'c, 'r) Collaborators \<Rightarrow> TrustedMaterial \<Rightarrow> bytes \<Rightarrow> VerificationContent \<Rightarrow>
   bool \<Rightarrow> bool \<Rightarrow> LoopState \<Rightarrow> Entry \<Rightarrow> error + LoopState" where
  "verifyEntry c trustedMaterial entitySignature verificationContent trustIntegratedTime
     online st entry =
     (case ValidateEntry c entry of
        Some err \<Rightarrow> Inl (Propagated err)
      | None \<Rightarrow>
          (case RekorLogs trustedMaterial (EncodeToString (LogKeyID entry)) of
             None \<Rightarrow> Inr st
           | Some tlogVerifier \<Rightarrow>
               (case (if \<not> online
                      then verifyOffline c trustedMaterial tlogVerifier trustIntegratedTime
                             (verifiedTimestamps st) entry
                      else (case verifyOnline c tlogVerifier trustIntegratedTime
                                   (verifiedTimestamps st) entry of
                              Inl err \<Rightarrow> Inl err
                            | Inr ts' \<Rightarrow> Inr (Some ts'))) of
                  Inl err \<Rightarrow> Inl err
                | Inr None \<Rightarrow> Inr st
                | Inr (Some ts') \<Rightarrow>
                    (case checkConsistency entitySignature verificationContent
                            trustedMaterial entry of
                       Some err \<Rightarrow> Inl err
                     | None \<Rightarrow>
                         Inr \<lparr>verifiedTimestamps = ts',
                              logEntriesVerified = logEntriesVerified st + 1\<rparr>))))"

text \<open>Lines 82 to 177, the loop over the entries: it stops at the first error.\<close>

fun verifyEntries ::
  "('v, 'c, 'r) Collaborators \<Rightarrow> TrustedMaterial \<Rightarrow> bytes \<Rightarrow> VerificationContent \<Rightarrow>
   bool \<Rightarrow> bool \<Rightarrow> LoopState \<Rightarrow> Entry list \<Rightarrow> error + LoopState" where
  "verifyEntries c trustedMaterial entitySignature verificationContent trustIntegratedTime
     online st [] = Inr st"
| "verifyEntries c trustedMaterial entitySignature verificationContent trustIntegratedTime
     online st (entry # entries) =
     (case verifyEntry c trustedMaterial entitySignature verificationContent
             trustIntegratedTime online st entry of
        Inl err \<Rightarrow> Inl err
      | Inr st' \<Rightarrow>
          verifyEntries c trustedMaterial entitySignature verificationContent
            trustIntegratedTime online st' entries)"

text \<open>Lines 79 and 80.\<close>

definition initialState :: LoopState where
  "initialState = \<lparr>verifiedTimestamps = [], logEntriesVerified = 0\<rparr>"

text \<open>
  Lines 47 to 184. \<open>logThreshold\<close> is a Go \<^verbatim>\<open>int\<close>; the counter never exceeds 32, so
  the comparison of line 179 is that of the integers.
\<close>

definition VerifyArtifactTransparencyLog ::
  "('v, 'c, 'r) Collaborators \<Rightarrow> SignedEntity \<Rightarrow> TrustedMaterial \<Rightarrow> int \<Rightarrow> bool \<Rightarrow> bool \<Rightarrow>
   error + Timestamp list" where
  "VerifyArtifactTransparencyLog c entity trustedMaterial logThreshold trustIntegratedTime
     online =
     (case TlogEntries entity of
        Inl err \<Rightarrow> Inl (Propagated err)
      | Inr entries \<Rightarrow>
          if length entries > maxAllowedTlogEntries
          then Inl (TooManyEntries (length entries) maxAllowedTlogEntries)
          else if hasDuplicates entries then Inl DuplicateEntries
          else
            (case SignatureContent entity of
               Inl err \<Rightarrow> Inl (Propagated err)
             | Inr entitySignature \<Rightarrow>
                 (case VerificationContent entity of
                    Inl err \<Rightarrow> Inl (Propagated err)
                  | Inr verificationContent \<Rightarrow>
                      (case verifyEntries c trustedMaterial entitySignature
                              verificationContent trustIntegratedTime online
                              initialState entries of
                         Inl err \<Rightarrow> Inl err
                       | Inr st \<Rightarrow>
                           if logEntriesVerified st < logThreshold
                           then Inl (NotEnoughEntries (logEntriesVerified st) logThreshold)
                           else Inr (verifiedTimestamps st)))))"

subsection \<open>Notions used in the statements and proofs\<close>

text \<open>
  The identity the duplicate scan of line 61 compares; the sum of two loop states; and
  what one entry adds to the loop state when the loop body runs from the initial state
  (nothing when the body returns an error).
\<close>

definition entryIdentity :: "Entry \<Rightarrow> string \<times> 64 word" where
  "entryIdentity e = (LogKeyID e, LogIndex e)"

definition addState :: "LoopState \<Rightarrow> LoopState \<Rightarrow> LoopState" where
  "addState st d =
     \<lparr>verifiedTimestamps = verifiedTimestamps st @ verifiedTimestamps d,
      logEntriesVerified = logEntriesVerified st + logEntriesVerified d\<rparr>"

definition entryDelta ::
  "('v, 'c, 'r) Collaborators \<Rightarrow> TrustedMaterial \<Rightarrow> bytes \<Rightarrow> VerificationContent \<Rightarrow>
   bool \<Rightarrow> bool \<Rightarrow> Entry \<Rightarrow> LoopState" where
  "entryDelta c tm sig vc tit online e =
     (case verifyEntry c tm sig vc tit online initialState e of
        Inl err \<Rightarrow> initialState
      | Inr d \<Rightarrow> d)"

subsection \<open>Example inputs\<close>

text \<open>
  Concrete inputs on which the theorems below are instantiated. One log, with key id
  \<open>''k''\<close> (hex \<open>''6b''\<close>), is trusted. The example collaborators read their answer
  off the entry's body: body \<open>[255]\<close> fails structural validation, \<open>[1]\<close> fails SET
  verification, \<open>[2]\<close> fails inclusion-proof verification; the remote log has no record
  at index 0, and its record 13 fails the remote check.
\<close>

definition exampleLog :: TransparencyLog where
  "exampleLog = \<lparr>BaseURL = ''https://rekor.example'', PublicKey_tl = [4, 2],
                  SignatureHashFunc = 5\<rparr>"

definition exampleMaterial :: TrustedMaterial where
  "exampleMaterial = \<lparr>RekorLogs = [''6b'' \<mapsto> exampleLog]\<rparr>"

definition exampleEntry :: "string \<Rightarrow> 64 word \<Rightarrow> bool \<Rightarrow> bool \<Rightarrow> bytes \<Rightarrow> Entry" where
  "exampleEntry keyID idx promise proof body =
     \<lparr>LogKeyID = keyID, LogIndex = idx, IntegratedTime = 100, Signature = [7],
      PublicKey = [9], HasInclusionPromise = promise, HasInclusionProof = proof,
      Body = body\<rparr>"

definition exampleContent :: VerificationContent where
  "exampleContent =
     \<lparr>CompareKey = (\<lambda>key tm. key = [9]), ValidAtTime = (\<lambda>t tm. 50 \<le> t \<and> t \<le> 150)\<rparr>"

definition exampleEntity :: "Entry list \<Rightarrow> SignedEntity" where
  "exampleEntity es =
     \<lparr>TlogEntries = Inr es, SignatureContent = Inr [7],
      VerificationContent = Inr exampleContent\<rparr>"

definition exampleCollaborators :: "(unit, unit, 64 word) Collaborators" where
  "exampleCollaborators =
     \<lparr>ValidateEntry = (\<lambda>e. if Body e = [255] then Some ''malformed entry'' else None),
      VerifySET = (\<lambda>e logs. if Body e = [1] then Some ''invalid SET'' else None),
      LoadVerifier = (\<lambda>key h. Inr ()),
      VerifyInclusion = (\<lambda>e v. if Body e = [2] then Some ''invalid proof'' else None),
      RekorClientGetter = (\<lambda>url. Inr ()),
      GetLogEntryByIndex = (\<lambda>client idx. if idx = 0 then Inr [] else Inr [idx]),
      VerifyLogEntry = (\<lambda>r v. if r = 13 then Some ''record does not verify'' else None)\<rparr>"

section \<open>Lemmas on the duplicate scan and the loop\<close>

text \<open>The scan of lines 59 to 65 finds a duplicate exactly when two identities coincide.\<close>

lemma duplicateOf_iff: "duplicateOf e es \<longleftrightarrow> entryIdentity e \<in> entryIdentity ` set es"
  by (induction es) (auto simp: entryIdentity_def)

lemma hasDuplicates_iff: "hasDuplicates es \<longleftrightarrow> \<not> distinct (map entryIdentity es)"
  by (induction es) (auto simp: duplicateOf_iff)

lemma hasDuplicates_mset: "mset es' = mset es \<Longrightarrow> hasDuplicates es' = hasDuplicates es"
proof -
  assume "mset es' = mset es"
  then have "mset (map entryIdentity es') = mset (map entryIdentity es)"
    by simp
  then have "distinct (map entryIdentity es') = distinct (map entryIdentity es)"
    by (rule mset_eq_imp_distinct_iff)
  then show ?thesis
    by (simp add: hasDuplicates_iff)
qed

lemma hasDuplicates_nth:
  assumes "i < j" "j < length es" "entryIdentity (es ! i) = entryIdentity (es ! j)"
  shows "hasDuplicates es"
proof -
  have "\<not> distinct (map entryIdentity es)"
  proof
    assume d: "distinct (map entryIdentity es)"
    from assms have b: "i < length (map entryIdentity es)" "j < length (map entryIdentity es)"
      by simp_all
    have "(map entryIdentity es ! i = map entryIdentity es ! j) = (i = j)"
      using d b by (rule nth_eq_iff_index_eq)
    with assms show False by simp
  qed
  then show ?thesis by (simp add: hasDuplicates_iff)
qed

lemma hasDuplicates_remove:
  "\<not> hasDuplicates (pre @ e # post) \<Longrightarrow> \<not> hasDuplicates (pre @ post)"
  by (auto simp: hasDuplicates_iff)

text \<open>The loop over a concatenation, and the operation once admission has passed.\<close>

lemma verifyEntries_append:
  "verifyEntries c tm sig vc tit online st (xs @ ys) =
     (case verifyEntries c tm sig vc tit online st xs of
        Inl err \<Rightarrow> Inl err
      | Inr st' \<Rightarrow> verifyEntries c tm sig vc tit online st' ys)"
  by (induction xs arbitrary: st) (auto split: sum.splits)

lemma operation_after_admission:
  assumes "TlogEntries entity = Inr entries" "length entries \<le> 32"
    "\<not> hasDuplicates entries" "SignatureContent entity = Inr sig"
    "VerificationContent entity = Inr vc"
  shows "VerifyArtifactTransparencyLog c entity tm logThreshold tit online =
     (case verifyEntries c tm sig vc tit online initialState entries of
        Inl err \<Rightarrow> Inl err
      | Inr st \<Rightarrow>
          if logEntriesVerified st < logThreshold
          then Inl (NotEnoughEntries (logEntriesVerified st) logThreshold)
          else Inr (verifiedTimestamps st))"
  using assms by (simp add: VerifyArtifactTransparencyLog_def maxAllowedTlogEntries_def)

text \<open>
  What an entry does to the loop state does not depend on the state: the body run from
  any state is the body run from the initial state, added to that state.
\<close>

lemma addState_initial [simp]: "addState initialState d = d" "addState st initialState = st"
  by (simp_all add: addState_def initialState_def)

lemma addState_assoc: "addState (addState a b) d = addState a (addState b d)"
  by (simp add: addState_def)

lemma verifyPromise_state:
  "verifyPromise c tm lg tit ts e = map_option ((@) ts) (verifyPromise c tm lg tit [] e)"
  by (simp add: verifyPromise_def split: option.splits)

lemma verifyOffline_state:
  "verifyOffline c tm lg tit ts e =
     map_sum id (map_option ((@) ts)) (verifyOffline c tm lg tit [] e)"
  unfolding verifyOffline_def
  by (subst verifyPromise_state) (simp split: option.splits)

lemma verifyOnline_state:
  "verifyOnline c lg tit ts e = map_sum id ((@) ts) (verifyOnline c lg tit [] e)"
  by (simp add: verifyOnline_def split: sum.splits option.splits)

lemma verifyEntry_state:
  "verifyEntry c tm sig vc tit online st e =
     (case verifyEntry c tm sig vc tit online initialState e of
        Inl err \<Rightarrow> Inl err
      | Inr d \<Rightarrow> Inr (addState st d))"
proof (cases online)
  case True
  show ?thesis
    unfolding verifyEntry_def
    by (subst verifyOnline_state)
       (simp add: True initialState_def addState_def split: sum.splits option.splits)
next
  case False
  show ?thesis
    unfolding verifyEntry_def
    by (subst verifyOffline_state)
       (simp add: False initialState_def addState_def split: sum.splits option.splits)
qed

lemma verifyEntries_state:
  "verifyEntries c tm sig vc tit online st es =
     (case verifyEntries c tm sig vc tit online initialState es of
        Inl err \<Rightarrow> Inl err
      | Inr d \<Rightarrow> Inr (addState st d))"
proof (induction es arbitrary: st)
  case Nil
  show ?case by simp
next
  case (Cons e es)
  show ?case
  proof (cases "verifyEntry c tm sig vc tit online initialState e")
    case (Inl err)
    then have "verifyEntry c tm sig vc tit online st e = Inl err"
      using verifyEntry_state [of c tm sig vc tit online st e] by simp
    with Inl show ?thesis by simp
  next
    case (Inr d)
    then have 1: "verifyEntry c tm sig vc tit online st e = Inr (addState st d)"
      using verifyEntry_state [of c tm sig vc tit online st e] by simp
    have 2: "verifyEntries c tm sig vc tit online (addState st d) es =
        (case verifyEntries c tm sig vc tit online initialState es of
           Inl err \<Rightarrow> Inl err
         | Inr d' \<Rightarrow> Inr (addState (addState st d) d'))"
      by (rule Cons.IH)
    have 3: "verifyEntries c tm sig vc tit online d es =
        (case verifyEntries c tm sig vc tit online initialState es of
           Inl err \<Rightarrow> Inl err
         | Inr d' \<Rightarrow> Inr (addState d d'))"
      by (rule Cons.IH)
    show ?thesis
      using Inr 1 2 3 by (simp add: addState_assoc split: sum.splits)
  qed
qed

text \<open>
  An entry on which the body fails makes the loop fail; with no such entry the loop
  succeeds, and its final state is the sum of what the entries add.
\<close>

lemma verifyEntries_fatal:
  "e \<in> set es \<Longrightarrow> verifyEntry c tm sig vc tit online initialState e = Inl err \<Longrightarrow>
   \<exists>err'. verifyEntries c tm sig vc tit online st es = Inl err'"
proof (induction es arbitrary: st)
  case Nil
  then show ?case by simp
next
  case (Cons x xs)
  show ?case
  proof (cases "verifyEntry c tm sig vc tit online st x")
    case (Inl a)
    then show ?thesis by simp
  next
    case (Inr st')
    then have "verifyEntry c tm sig vc tit online initialState x \<noteq> Inl err"
      using verifyEntry_state [of c tm sig vc tit online st x] by auto
    with Cons.prems have "e \<in> set xs" by auto
    from Cons.IH [OF this Cons.prems(2)] Inr show ?thesis by simp
  qed
qed

lemma verifyEntries_total:
  "(\<exists>e \<in> set es. \<exists>err. verifyEntry c tm sig vc tit online initialState e = Inl err) \<or>
   verifyEntries c tm sig vc tit online st es =
     Inr \<lparr>verifiedTimestamps = verifiedTimestamps st @
             concat (map (\<lambda>e. verifiedTimestamps (entryDelta c tm sig vc tit online e)) es),
          logEntriesVerified = logEntriesVerified st +
             sum_list (map (\<lambda>e. logEntriesVerified (entryDelta c tm sig vc tit online e)) es)\<rparr>"
proof (induction es arbitrary: st)
  case Nil
  show ?case by simp
next
  case (Cons x xs)
  show ?case
  proof (cases "verifyEntry c tm sig vc tit online initialState x")
    case (Inl err)
    then show ?thesis by auto
  next
    case (Inr d)
    then have 1: "verifyEntry c tm sig vc tit online st x = Inr (addState st d)"
      using verifyEntry_state [of c tm sig vc tit online st x] by simp
    have 2: "entryDelta c tm sig vc tit online x = d"
      using Inr by (simp add: entryDelta_def)
    from Cons.IH [of "addState st d"] show ?thesis
      using 1 2 by (auto simp: addState_def)
  qed
qed

lemma entryDelta_mset:
  assumes "mset es' = mset es"
  shows "mset (concat (map (\<lambda>e. verifiedTimestamps (entryDelta c tm sig vc tit online e)) es')) =
         mset (concat (map (\<lambda>e. verifiedTimestamps (entryDelta c tm sig vc tit online e)) es))"
    and "sum_list (map (\<lambda>e. logEntriesVerified (entryDelta c tm sig vc tit online e)) es') =
         sum_list (map (\<lambda>e. logEntriesVerified (entryDelta c tm sig vc tit online e)) es)"
proof -
  let ?f = "\<lambda>e. verifiedTimestamps (entryDelta c tm sig vc tit online e)"
  let ?g = "\<lambda>e. logEntriesVerified (entryDelta c tm sig vc tit online e)"
  have "mset (map ?f es') = mset (map ?f es)"
    using assms by simp
  then show "mset (concat (map ?f es')) = mset (concat (map ?f es))"
    by (simp only: mset_concat sum_mset_sum_list [symmetric] mset_map [symmetric])
       (metis mset_map)
  have "mset (map ?g es') = mset (map ?g es)"
    using assms by simp
  then show "sum_list (map ?g es') = sum_list (map ?g es)"
    by (metis sum_mset_sum_list)
qed

text \<open>The counter never decreases: one entry leaves it or adds one.\<close>

lemma verifyEntry_count:
  "verifyEntry c tm sig vc tit online st e = Inr st' \<Longrightarrow>
   logEntriesVerified st' = logEntriesVerified st \<or>
   logEntriesVerified st' = logEntriesVerified st + 1"
  by (auto simp: verifyEntry_def split: option.splits sum.splits if_splits)

lemma verifyEntries_count:
  "verifyEntries c tm sig vc tit online st es = Inr st' \<Longrightarrow>
   logEntriesVerified st \<le> logEntriesVerified st'"
proof (induction es arbitrary: st)
  case Nil
  then show ?case by simp
next
  case (Cons x xs)
  from Cons.prems obtain st1 where
    1: "verifyEntry c tm sig vc tit online st x = Inr st1" and
    2: "verifyEntries c tm sig vc tit online st1 xs = Inr st'"
    by (auto split: sum.splits)
  from verifyEntry_count [OF 1] Cons.IH [OF 2] show ?case by auto
qed

text \<open>The definitions unfolded when the operation is run on the example inputs.\<close>

lemmas example_defs =
  exampleLog_def exampleMaterial_def exampleEntry_def exampleContent_def
  exampleEntity_def exampleCollaborators_def

lemmas operation_defs =
  verifyEntry_def verifyOffline_def verifyOnline_def verifyPromise_def verifyProof_def
  getVerifier_def checkConsistency_def initialState_def EncodeToString_def hextable_def

lemma example_two_verified:
  "verifyEntries exampleCollaborators exampleMaterial [7] exampleContent True False
     initialState [exampleEntry ''k'' 1 True False [], exampleEntry ''k'' 2 True True []] =
   Inr \<lparr>verifiedTimestamps =
          [\<lparr>Time = 100, URI = ''https://rekor.example''\<rparr>,
           \<lparr>Time = 100, URI = ''https://rekor.example''\<rparr>],
        logEntriesVerified = 2\<rparr>"
  by (simp add: operation_defs example_defs)

text \<open>An error of the loop body at an entry the loop reaches is the operation's result.\<close>

lemma operation_at_entry:
  assumes "TlogEntries entity = Inr (pre @ entry # post)"
    and "length (pre @ entry # post) \<le> 32"
    and "\<not> hasDuplicates (pre @ entry # post)"
    and "SignatureContent entity = Inr sig"
    and "VerificationContent entity = Inr vc"
    and "verifyEntries c tm sig vc tit online initialState pre = Inr st"
    and "verifyEntry c tm sig vc tit online st entry = Inl err"
  shows "VerifyArtifactTransparencyLog c entity tm logThreshold tit online = Inl err"
  using assms by (simp add: operation_after_admission verifyEntries_append)

text \<open>A record of the payload that fails the remote check makes the scan of the payload fail.\<close>

lemma verifyPayload_Some:
  "r \<in> set payload \<Longrightarrow> VerifyLogEntry c r verifier = Some msg \<Longrightarrow>
   \<exists>r' msg'. r' \<in> set payload \<and> VerifyLogEntry c r' verifier = Some msg' \<and>
     verifyPayload c payload verifier = Some (Propagated msg')"
proof (induction payload)
  case Nil
  then show ?case by simp
next
  case (Cons x xs)
  show ?case
  proof (cases "VerifyLogEntry c x verifier")
    case None
    with Cons.prems have "r \<in> set xs" by auto
    from Cons.IH [OF this Cons.prems(2)] None show ?thesis by auto
  next
    case (Some m)
    then show ?thesis by (intro exI [of _ x] exI [of _ m]) simp
  qed
qed

text \<open>
  The loop on a permuted list: it fails on both or on neither, and when it succeeds the
  counters are equal and the timestamp lists hold the same timestamps.
\<close>

lemma verifyEntries_permuted:
  assumes "mset es' = mset es"
  shows "case verifyEntries c tm sig vc tit online initialState es of
           Inl err \<Rightarrow> \<exists>err'. verifyEntries c tm sig vc tit online initialState es' = Inl err'
         | Inr st \<Rightarrow> \<exists>st'. verifyEntries c tm sig vc tit online initialState es' = Inr st' \<and>
             logEntriesVerified st' = logEntriesVerified st \<and>
             mset (verifiedTimestamps st') = mset (verifiedTimestamps st)"
proof (cases "\<exists>e \<in> set es. \<exists>err. verifyEntry c tm sig vc tit online initialState e = Inl err")
  case True
  then obtain e err where e: "e \<in> set es"
    and f: "verifyEntry c tm sig vc tit online initialState e = Inl err"
    by blast
  from assms e have e': "e \<in> set es'"
    using mset_eq_setD by blast
  from verifyEntries_fatal [OF e f, of initialState] verifyEntries_fatal [OF e' f, of initialState]
  show ?thesis by auto
next
  case False
  from assms have "set es' = set es"
    by (rule mset_eq_setD)
  with False have False':
    "\<not> (\<exists>e \<in> set es'. \<exists>err. verifyEntry c tm sig vc tit online initialState e = Inl err)"
    by simp
  from verifyEntries_total [of es c tm sig vc tit online initialState] False
  have 1: "verifyEntries c tm sig vc tit online initialState es =
     Inr \<lparr>verifiedTimestamps = verifiedTimestamps initialState @
             concat (map (\<lambda>e. verifiedTimestamps (entryDelta c tm sig vc tit online e)) es),
          logEntriesVerified = logEntriesVerified initialState +
             sum_list (map (\<lambda>e. logEntriesVerified (entryDelta c tm sig vc tit online e)) es)\<rparr>"
    by blast
  from verifyEntries_total [of es' c tm sig vc tit online initialState] False'
  have 2: "verifyEntries c tm sig vc tit online initialState es' =
     Inr \<lparr>verifiedTimestamps = verifiedTimestamps initialState @
             concat (map (\<lambda>e. verifiedTimestamps (entryDelta c tm sig vc tit online e)) es'),
          logEntriesVerified = logEntriesVerified initialState +
             sum_list (map (\<lambda>e. logEntriesVerified (entryDelta c tm sig vc tit online e)) es')\<rparr>"
    by blast
  show ?thesis
    unfolding 1 2 using entryDelta_mset [OF assms, of c tm sig vc tit online]
    by (simp add: initialState_def)
qed

text \<open>
  The loop never returns the not-enough-entries error, and with a threshold of at most 0
  the operation never does.
\<close>

lemma verifyPayload_error:
  "verifyPayload c payload verifier = Some err \<Longrightarrow> \<exists>msg. err = Propagated msg"
  by (induction payload) (auto split: option.splits)

lemma verifyEntry_error:
  "verifyEntry c tm sig vc tit online st e = Inl err \<Longrightarrow> err \<noteq> NotEnoughEntries n k"
  by (auto simp: verifyEntry_def verifyOffline_def verifyOnline_def verifyProof_def
        getVerifier_def checkConsistency_def
      split: option.splits sum.splits if_splits dest: verifyPayload_error)

lemma verifyEntries_error:
  "verifyEntries c tm sig vc tit online st es = Inl err \<Longrightarrow> err \<noteq> NotEnoughEntries n k"
  by (induction es arbitrary: st) (auto split: sum.splits dest: verifyEntry_error)

lemma nonpositive_threshold_error:
  assumes "logThreshold \<le> 0"
  shows "VerifyArtifactTransparencyLog c entity tm logThreshold tit online \<noteq>
    Inl (NotEnoughEntries n k)"
proof
  assume f: "VerifyArtifactTransparencyLog c entity tm logThreshold tit online =
    Inl (NotEnoughEntries n k)"
  then obtain entries sig vc where
    s: "SignatureContent entity = Inr sig" and v: "VerificationContent entity = Inr vc"
    and a: "TlogEntries entity = Inr entries" and l: "length entries \<le> 32"
    and d: "\<not> hasDuplicates entries"
    by (auto simp: VerifyArtifactTransparencyLog_def maxAllowedTlogEntries_def
        split: sum.splits if_splits)
  show False
  proof (cases "verifyEntries c tm sig vc tit online initialState entries")
    case (Inl err)
    with f verifyEntries_error [OF Inl, of n k] show False
      by (simp add: operation_after_admission [OF a l d s v])
  next
    case (Inr st)
    from verifyEntries_count [OF Inr] assms have "\<not> logEntriesVerified st < logThreshold"
      by (simp add: initialState_def)
    with f Inr show False
      by (simp add: operation_after_admission [OF a l d s v])
  qed
qed

text \<open>
  An error of one of the entity's accessors (lines 48 to 51 and 67 to 77) is returned
  as it is.
\<close>

lemma entity_errors_propagated:
  "TlogEntries entity = Inl msg \<Longrightarrow>
     VerifyArtifactTransparencyLog c entity tm logThreshold tit online = Inl (Propagated msg)"
  "TlogEntries entity = Inr entries \<Longrightarrow> length entries \<le> 32 \<Longrightarrow> \<not> hasDuplicates entries \<Longrightarrow>
   SignatureContent entity = Inl msg \<Longrightarrow>
     VerifyArtifactTransparencyLog c entity tm logThreshold tit online = Inl (Propagated msg)"
  "TlogEntries entity = Inr entries \<Longrightarrow> length entries \<le> 32 \<Longrightarrow> \<not> hasDuplicates entries \<Longrightarrow>
   SignatureContent entity = Inr sig \<Longrightarrow> VerificationContent entity = Inl msg \<Longrightarrow>
     VerifyArtifactTransparencyLog c entity tm logThreshold tit online = Inl (Propagated msg)"
  by (simp_all add: VerifyArtifactTransparencyLog_def maxAllowedTlogEntries_def)

section \<open>Entry admission\<close>

text \<open>
  C5. An entity whose entry list has more than 32 entries is refused with the
  too-many-entries error of line 55. No per-entry step has any part in it: the result is
  the same for all collaborators, also for ones whose structural validation, lookups or
  cryptographic checks would fail, and for every trusted material, signature and
  verification content of the entity, threshold and pair of flags.
\<close>

theorem too_many_entries_rejected:
  assumes "TlogEntries entity = Inr entries" and "length entries > 32"
  shows "VerifyArtifactTransparencyLog c entity trustedMaterial logThreshold
           trustIntegratedTime online = Inl (TooManyEntries (length entries) 32) \<and>
         VerifyArtifactTransparencyLog c'
           (entity\<lparr>SignatureContent := entitySignature',
                   VerificationContent := verificationContent'\<rparr>)
           trustedMaterial' logThreshold' trustIntegratedTime' online' =
         VerifyArtifactTransparencyLog c entity trustedMaterial logThreshold
           trustIntegratedTime online"
  using assms by (simp add: VerifyArtifactTransparencyLog_def maxAllowedTlogEntries_def)

text \<open>
  Thirty-three entries, each of which would fail structural validation: the error is
  the one of the count.
\<close>

theorem too_many_entries_rejected_witness:
  "TlogEntries (exampleEntity (map (\<lambda>i. exampleEntry ''k'' (of_nat i) False False [255]) [0..<33]))
     = Inr (map (\<lambda>i. exampleEntry ''k'' (of_nat i) False False [255]) [0..<33]) \<and>
   length (map (\<lambda>i. exampleEntry ''k'' (of_nat i) False False [255]) [0..<33]) > 32 \<and>
   VerifyArtifactTransparencyLog exampleCollaborators
     (exampleEntity (map (\<lambda>i. exampleEntry ''k'' (of_nat i) False False [255]) [0..<33]))
     exampleMaterial 1 True False = Inl (TooManyEntries 33 32)"
proof -
  let ?es = "map (\<lambda>i. exampleEntry ''k'' (of_nat i) False False [255]) [0..<33]"
  have a: "TlogEntries (exampleEntity ?es) = Inr ?es"
    by (simp add: exampleEntity_def)
  have b: "length ?es > 32"
    by simp
  from too_many_entries_rejected [OF a b, THEN conjunct1,
      of exampleCollaborators exampleMaterial 1 True False]
  show ?thesis
    using a by simp
qed

text \<open>
  C6, as amended. The duplicate scan of lines 59 to 65 runs after the count check of
  line 54. For every entry list of at most 32 entries in which two entries at different
  positions share the identity (log key id, log index), the operation returns the
  duplicate-entries error of line 62. No per-entry step has any part in it: the result
  is the same for all collaborators, trusted materials, contents of the entity,
  thresholds and flags.
\<close>

theorem duplicate_entries_rejected:
  assumes "TlogEntries entity = Inr entries" and "length entries \<le> 32"
    and "i < j" and "j < length entries"
    and "LogKeyID (entries ! i) = LogKeyID (entries ! j)"
    and "LogIndex (entries ! i) = LogIndex (entries ! j)"
  shows "VerifyArtifactTransparencyLog c entity trustedMaterial logThreshold
           trustIntegratedTime online = Inl DuplicateEntries \<and>
         VerifyArtifactTransparencyLog c'
           (entity\<lparr>SignatureContent := entitySignature',
                   VerificationContent := verificationContent'\<rparr>)
           trustedMaterial' logThreshold' trustIntegratedTime' online' =
         VerifyArtifactTransparencyLog c entity trustedMaterial logThreshold
           trustIntegratedTime online"
proof -
  have "hasDuplicates entries"
    using assms(3-6) by (intro hasDuplicates_nth [of i j]) (simp_all add: entryIdentity_def)
  with assms(1,2) show ?thesis
    by (simp add: VerifyArtifactTransparencyLog_def maxAllowedTlogEntries_def)
qed

text \<open>Three entries, the first and the third with the same identity.\<close>

theorem duplicate_entries_rejected_witness:
  "VerifyArtifactTransparencyLog exampleCollaborators
     (exampleEntity [exampleEntry ''k'' 5 False True [], exampleEntry ''z'' 1 False True [],
                     exampleEntry ''k'' 5 True False [3]])
     exampleMaterial 1 True False = Inl DuplicateEntries"
  using duplicate_entries_rejected [where
      entity = "exampleEntity [exampleEntry ''k'' 5 False True [],
                     exampleEntry ''z'' 1 False True [], exampleEntry ''k'' 5 True False [3]]"
      and entries = "[exampleEntry ''k'' 5 False True [], exampleEntry ''z'' 1 False True [],
                     exampleEntry ''k'' 5 True False [3]]" and i = 0 and j = 2
      and c = exampleCollaborators and trustedMaterial = exampleMaterial
      and logThreshold = 1 and trustIntegratedTime = True and online = False,
      THEN conjunct1]
  by (simp add: exampleEntity_def exampleEntry_def)

text \<open>
  C6 as stated, for every entry list, fails on a list of 33 entries: its first two
  entries are different entries with the same identity, and the error returned is the
  one of the count, not the duplicate-entries error.
\<close>

theorem duplicate_entries_counterexample:
  "TlogEntries (exampleEntity (exampleEntry ''k'' 0 False True [3] #
       map (\<lambda>i. exampleEntry ''k'' (of_nat i) False True []) [0..<32])) =
     Inr (exampleEntry ''k'' 0 False True [3] #
       map (\<lambda>i. exampleEntry ''k'' (of_nat i) False True []) [0..<32]) \<and>
   (exampleEntry ''k'' 0 False True [3] #
       map (\<lambda>i. exampleEntry ''k'' (of_nat i) False True []) [0..<32]) ! 0 \<noteq>
   (exampleEntry ''k'' 0 False True [3] #
       map (\<lambda>i. exampleEntry ''k'' (of_nat i) False True []) [0..<32]) ! 1 \<and>
   entryIdentity ((exampleEntry ''k'' 0 False True [3] #
       map (\<lambda>i. exampleEntry ''k'' (of_nat i) False True []) [0..<32]) ! 0) =
   entryIdentity ((exampleEntry ''k'' 0 False True [3] #
       map (\<lambda>i. exampleEntry ''k'' (of_nat i) False True []) [0..<32]) ! 1) \<and>
   VerifyArtifactTransparencyLog exampleCollaborators
     (exampleEntity (exampleEntry ''k'' 0 False True [3] #
       map (\<lambda>i. exampleEntry ''k'' (of_nat i) False True []) [0..<32]))
     exampleMaterial 1 True False = Inl (TooManyEntries 33 32) \<and>
   VerifyArtifactTransparencyLog exampleCollaborators
     (exampleEntity (exampleEntry ''k'' 0 False True [3] #
       map (\<lambda>i. exampleEntry ''k'' (of_nat i) False True []) [0..<32]))
     exampleMaterial 1 True False \<noteq> Inl DuplicateEntries"
  by (simp add: VerifyArtifactTransparencyLog_def maxAllowedTlogEntries_def
        exampleEntity_def exampleEntry_def entryIdentity_def)

section \<open>The threshold\<close>

text \<open>
  C3. Once the entry list has passed the admission checks, the entity has given its
  signature and verification content, and the loop has processed all entries without
  an error, ending in state \<open>st\<close>, the operation returns the not-enough-entries error
  of line 180 exactly when the counter of \<open>st\<close> is strictly below the threshold, and
  otherwise the timestamp list of \<open>st\<close>. In particular a threshold one above the
  counter fails and a threshold equal to the counter succeeds.
\<close>

theorem threshold_decides:
  assumes "TlogEntries entity = Inr entries" and "length entries \<le> 32"
    and "\<not> hasDuplicates entries"
    and "SignatureContent entity = Inr entitySignature"
    and "VerificationContent entity = Inr verificationContent"
    and "verifyEntries c trustedMaterial entitySignature verificationContent
           trustIntegratedTime online initialState entries = Inr st"
  shows "VerifyArtifactTransparencyLog c entity trustedMaterial logThreshold
           trustIntegratedTime online =
           (if logEntriesVerified st < logThreshold
            then Inl (NotEnoughEntries (logEntriesVerified st) logThreshold)
            else Inr (verifiedTimestamps st)) \<and>
         VerifyArtifactTransparencyLog c entity trustedMaterial (logEntriesVerified st + 1)
           trustIntegratedTime online =
           Inl (NotEnoughEntries (logEntriesVerified st) (logEntriesVerified st + 1)) \<and>
         VerifyArtifactTransparencyLog c entity trustedMaterial (logEntriesVerified st)
           trustIntegratedTime online = Inr (verifiedTimestamps st)"
  using assms by (simp add: operation_after_admission)

text \<open>Two verified entries: threshold 3 fails, threshold 2 returns the two timestamps.\<close>

theorem threshold_decides_witness:
  "VerifyArtifactTransparencyLog exampleCollaborators
     (exampleEntity [exampleEntry ''k'' 1 True False [], exampleEntry ''k'' 2 True True []])
     exampleMaterial 3 True False = Inl (NotEnoughEntries 2 3) \<and>
   VerifyArtifactTransparencyLog exampleCollaborators
     (exampleEntity [exampleEntry ''k'' 1 True False [], exampleEntry ''k'' 2 True True []])
     exampleMaterial 2 True False =
     Inr [\<lparr>Time = 100, URI = ''https://rekor.example''\<rparr>,
          \<lparr>Time = 100, URI = ''https://rekor.example''\<rparr>]"
proof -
  let ?es = "[exampleEntry ''k'' 1 True False [], exampleEntry ''k'' 2 True True []]"
  have a: "TlogEntries (exampleEntity ?es) = Inr ?es"
    and s: "SignatureContent (exampleEntity ?es) = Inr [7]"
    and v: "VerificationContent (exampleEntity ?es) = Inr exampleContent"
    by (simp_all add: exampleEntity_def)
  have l: "length ?es \<le> 32" by simp
  have d: "\<not> hasDuplicates ?es" by (simp add: exampleEntry_def)
  from threshold_decides [OF a l d s v example_two_verified, of 3]
  show ?thesis by simp
qed

text \<open>
  C10, as amended. The threshold is compared and nothing else: line 179 is its only use,
  and no line checks that it is positive. With a threshold of at most 0 the operation
  never returns the not-enough-entries error, on any input. So once the entry list has passed
  the admission checks, the entity has given its signature and verification content,
  and the loop has processed all entries without an error, the operation succeeds with
  the timestamp list of the final state, however many entries were verified, none
  included. With an empty entry list, and the entity's contents given, the result is
  the empty timestamp list.
\<close>

theorem nonpositive_threshold_succeeds:
  assumes "logThreshold \<le> 0"
  shows "VerifyArtifactTransparencyLog c entity trustedMaterial logThreshold
           trustIntegratedTime online \<noteq> Inl (NotEnoughEntries n k) \<and>
         (TlogEntries entity = Inr entries \<and> length entries \<le> 32 \<and>
          \<not> hasDuplicates entries \<and>
          SignatureContent entity = Inr entitySignature \<and>
          VerificationContent entity = Inr verificationContent \<and>
          verifyEntries c trustedMaterial entitySignature verificationContent
            trustIntegratedTime online initialState entries = Inr st \<longrightarrow>
            VerifyArtifactTransparencyLog c entity trustedMaterial logThreshold
              trustIntegratedTime online = Inr (verifiedTimestamps st)) \<and>
         (TlogEntries entity = Inr [] \<and>
          SignatureContent entity = Inr entitySignature \<and>
          VerificationContent entity = Inr verificationContent \<longrightarrow>
            VerifyArtifactTransparencyLog c entity trustedMaterial logThreshold
              trustIntegratedTime online = Inr [])"
proof (intro conjI impI)
  show "VerifyArtifactTransparencyLog c entity trustedMaterial logThreshold
      trustIntegratedTime online \<noteq> Inl (NotEnoughEntries n k)"
    using assms by (rule nonpositive_threshold_error)
  show "VerifyArtifactTransparencyLog c entity trustedMaterial logThreshold
      trustIntegratedTime online = Inr (verifiedTimestamps st)"
    if h: "TlogEntries entity = Inr entries \<and> length entries \<le> 32 \<and>
      \<not> hasDuplicates entries \<and>
      SignatureContent entity = Inr entitySignature \<and>
      VerificationContent entity = Inr verificationContent \<and>
      verifyEntries c trustedMaterial entitySignature verificationContent
        trustIntegratedTime online initialState entries = Inr st"
  proof -
    from h have a: "TlogEntries entity = Inr entries" and l: "length entries \<le> 32"
      and d: "\<not> hasDuplicates entries"
      and s: "SignatureContent entity = Inr entitySignature"
      and v: "VerificationContent entity = Inr verificationContent"
      and lp: "verifyEntries c trustedMaterial entitySignature verificationContent
        trustIntegratedTime online initialState entries = Inr st"
      by simp_all
    have "logEntriesVerified initialState \<le> logEntriesVerified st"
      using lp by (rule verifyEntries_count)
    then have "\<not> logEntriesVerified st < logThreshold"
      using assms by (simp add: initialState_def)
    then show ?thesis
      using lp by (simp add: operation_after_admission [OF a l d s v])
  qed
  show "VerifyArtifactTransparencyLog c entity trustedMaterial logThreshold
      trustIntegratedTime online = Inr []"
    if "TlogEntries entity = Inr [] \<and>
      SignatureContent entity = Inr entitySignature \<and>
      VerificationContent entity = Inr verificationContent"
    using that assms
    by (simp add: VerifyArtifactTransparencyLog_def maxAllowedTlogEntries_def
          initialState_def)
qed

text \<open>
  The empty entry list with threshold 0; and one entry of an unrecognized log, so no
  verified entry, with threshold -1 in online mode.
\<close>

theorem nonpositive_threshold_succeeds_witness:
  "VerifyArtifactTransparencyLog exampleCollaborators (exampleEntity []) exampleMaterial 0
     True False = Inr [] \<and>
   VerifyArtifactTransparencyLog exampleCollaborators
     (exampleEntity [exampleEntry ''z'' 1 True True []]) exampleMaterial (- 1)
     False True = Inr []"
proof -
  have z: "(0::int) \<le> 0" and n: "(- 1::int) \<le> 0"
    by simp_all
  have e: "TlogEntries (exampleEntity []) = Inr [] \<and>
      SignatureContent (exampleEntity []) = Inr [7] \<and>
      VerificationContent (exampleEntity []) = Inr exampleContent"
    by (simp add: exampleEntity_def)
  have u: "TlogEntries (exampleEntity [exampleEntry ''z'' 1 True True []]) =
        Inr [exampleEntry ''z'' 1 True True []] \<and>
      length [exampleEntry ''z'' 1 True True []] \<le> 32 \<and>
      \<not> hasDuplicates [exampleEntry ''z'' 1 True True []] \<and>
      SignatureContent (exampleEntity [exampleEntry ''z'' 1 True True []]) = Inr [7] \<and>
      VerificationContent (exampleEntity [exampleEntry ''z'' 1 True True []]) =
        Inr exampleContent \<and>
      verifyEntries exampleCollaborators exampleMaterial [7] exampleContent False True
        initialState [exampleEntry ''z'' 1 True True []] = Inr initialState"
    by (simp add: operation_defs example_defs)
  have 1: "VerifyArtifactTransparencyLog exampleCollaborators (exampleEntity [])
      exampleMaterial 0 True False = Inr []"
    using nonpositive_threshold_succeeds [OF z, where entity = "exampleEntity []"
        and entitySignature = "[7]" and verificationContent = exampleContent
        and c = exampleCollaborators and trustedMaterial = exampleMaterial
        and trustIntegratedTime = True and online = False,
        THEN conjunct2, THEN conjunct2] e
    by simp
  have 2: "VerifyArtifactTransparencyLog exampleCollaborators
      (exampleEntity [exampleEntry ''z'' 1 True True []]) exampleMaterial (- 1)
      False True = Inr []"
    using nonpositive_threshold_succeeds [OF n,
        where entity = "exampleEntity [exampleEntry ''z'' 1 True True []]"
        and entries = "[exampleEntry ''z'' 1 True True []]"
        and entitySignature = "[7]" and verificationContent = exampleContent
        and c = exampleCollaborators and trustedMaterial = exampleMaterial
        and trustIntegratedTime = False and online = True and st = initialState,
        THEN conjunct2, THEN conjunct1] u
    by (simp add: initialState_def)
  from 1 2 show ?thesis by simp
qed

text \<open>
  C10 as stated fails where the operation ends before the threshold is looked at,
  although no entry raised an error. An entity with an empty entry list whose
  verification content cannot be obtained gets that error back with threshold 0 (line
  76); and 33 entries of an unrecognized log, none of which would raise an error or be
  counted, are refused for their number with threshold 0 (line 55).
\<close>

theorem nonpositive_threshold_counterexample:
  "TlogEntries ((exampleEntity [])\<lparr>VerificationContent := Inl ''no verification content''\<rparr>) =
     Inr [] \<and>
   VerifyArtifactTransparencyLog exampleCollaborators
     ((exampleEntity [])\<lparr>VerificationContent := Inl ''no verification content''\<rparr>)
     exampleMaterial 0 True False = Inl (Propagated ''no verification content'') \<and>
   length (map (\<lambda>i. exampleEntry ''z'' (of_nat i) False True []) [0..<33]) = 33 \<and>
   RekorLogs exampleMaterial (EncodeToString ''z'') = None \<and>
   VerifyArtifactTransparencyLog exampleCollaborators
     (exampleEntity (map (\<lambda>i. exampleEntry ''z'' (of_nat i) False True []) [0..<33]))
     exampleMaterial 0 True False = Inl (TooManyEntries 33 32)"
  by (simp add: VerifyArtifactTransparencyLog_def maxAllowedTlogEntries_def
        exampleEntity_def exampleMaterial_def EncodeToString_def hextable_def)

section \<open>Log resolution\<close>

text \<open>
  C4. A structurally valid entry whose hex-encoded log key id is not a key of the
  trusted-log map is skipped (line 94): the loop body returns the state it was given,
  so neither the counter nor the timestamp list changes and no error is returned; and
  the operation on a list that has passed the admission checks returns what it returns
  on the list without that entry.
\<close>

theorem unrecognized_log_skipped:
  assumes "TlogEntries entity = Inr (pre @ entry # post)"
    and "length (pre @ entry # post) \<le> 32"
    and "\<not> hasDuplicates (pre @ entry # post)"
    and "ValidateEntry c entry = None"
    and "RekorLogs trustedMaterial (EncodeToString (LogKeyID entry)) = None"
  shows "verifyEntry c trustedMaterial entitySignature verificationContent
           trustIntegratedTime online st entry = Inr st \<and>
         VerifyArtifactTransparencyLog c entity trustedMaterial logThreshold
           trustIntegratedTime online =
         VerifyArtifactTransparencyLog c (entity\<lparr>TlogEntries := Inr (pre @ post)\<rparr>)
           trustedMaterial logThreshold trustIntegratedTime online"
proof -
  have skip: "verifyEntry c trustedMaterial sig vc trustIntegratedTime online s entry = Inr s"
    for sig vc s
    using assms(4,5) by (simp add: verifyEntry_def)
  have loop: "verifyEntries c trustedMaterial sig vc trustIntegratedTime online initialState
        (pre @ entry # post) =
      verifyEntries c trustedMaterial sig vc trustIntegratedTime online initialState
        (pre @ post)" for sig vc
    by (simp add: verifyEntries_append skip split: sum.splits)
  have l: "length (pre @ post) \<le> 32"
    using assms(2) by simp
  have d: "\<not> hasDuplicates (pre @ post)"
    using assms(3) by (rule hasDuplicates_remove)
  have "VerifyArtifactTransparencyLog c entity trustedMaterial logThreshold
           trustIntegratedTime online =
         VerifyArtifactTransparencyLog c (entity\<lparr>TlogEntries := Inr (pre @ post)\<rparr>)
           trustedMaterial logThreshold trustIntegratedTime online"
    using assms(1-3) l d
    by (simp add: VerifyArtifactTransparencyLog_def maxAllowedTlogEntries_def loop
          split: sum.splits)
  with skip show ?thesis by simp
qed

text \<open>
  An entry of the unrecognized log \<open>''z''\<close> between two entries that verify by
  inclusion proof: with or without it the operation returns the same, here success.
\<close>

theorem unrecognized_log_skipped_witness:
  "verifyEntry exampleCollaborators exampleMaterial [7] exampleContent True False
     \<lparr>verifiedTimestamps = [], logEntriesVerified = 1\<rparr> (exampleEntry ''z'' 9 True True []) =
     Inr \<lparr>verifiedTimestamps = [], logEntriesVerified = 1\<rparr> \<and>
   VerifyArtifactTransparencyLog exampleCollaborators
     (exampleEntity [exampleEntry ''k'' 1 False True [], exampleEntry ''z'' 9 True True [],
                     exampleEntry ''k'' 2 False True []])
     exampleMaterial 2 True False =
   VerifyArtifactTransparencyLog exampleCollaborators
     (exampleEntity [exampleEntry ''k'' 1 False True [], exampleEntry ''k'' 2 False True []])
     exampleMaterial 2 True False \<and>
   VerifyArtifactTransparencyLog exampleCollaborators
     (exampleEntity [exampleEntry ''k'' 1 False True [], exampleEntry ''z'' 9 True True [],
                     exampleEntry ''k'' 2 False True []])
     exampleMaterial 2 True False = Inr []"
proof -
  let ?e = "exampleEntry ''z'' 9 True True []"
  let ?pre = "[exampleEntry ''k'' 1 False True []]"
  let ?post = "[exampleEntry ''k'' 2 False True []]"
  have a: "TlogEntries (exampleEntity (?pre @ ?e # ?post)) = Inr (?pre @ ?e # ?post)"
    by (simp add: exampleEntity_def)
  have l: "length (?pre @ ?e # ?post) \<le> 32" by simp
  have d: "\<not> hasDuplicates (?pre @ ?e # ?post)" by (simp add: exampleEntry_def)
  have v: "ValidateEntry exampleCollaborators ?e = None"
    by (simp add: example_defs)
  have u: "RekorLogs exampleMaterial (EncodeToString (LogKeyID ?e)) = None"
    by (simp add: example_defs EncodeToString_def hextable_def)
  have r: "VerifyArtifactTransparencyLog exampleCollaborators
     (exampleEntity [exampleEntry ''k'' 1 False True [], exampleEntry ''k'' 2 False True []])
     exampleMaterial 2 True False = Inr []"
    by (simp add: VerifyArtifactTransparencyLog_def maxAllowedTlogEntries_def
          operation_defs example_defs)
  from unrecognized_log_skipped [OF a l d v u, of "[7]" exampleContent True False
      "\<lparr>verifiedTimestamps = [], logEntriesVerified = 1\<rparr>" 2]
  show ?thesis using r by (simp add: exampleEntity_def)
qed

section \<open>Offline evidence\<close>

text \<open>
  C1, as amended. In offline mode, for a structurally valid entry of a recognized log:
  if it carries an inclusion promise whose SET verification fails, the entry is skipped
  (line 104) whether or not it also carries an inclusion proof that would verify: the
  loop body returns the state it was given, so the entry does not count, emits no
  timestamp and raises no error, and the loop gives the same result with the entry
  removed from the list. If it carries an inclusion proof and no inclusion promise, the
  proof verifies and the three consistency checks pass, the entry counts, and the
  timestamp list is left as it was, also when integrated time is trusted.
\<close>

theorem failed_promise_skips_entry:
  assumes "ValidateEntry c entry = None"
    and "RekorLogs trustedMaterial (EncodeToString (LogKeyID entry)) = Some tlogVerifier"
  shows "(HasInclusionPromise entry \<and>
          VerifySET c entry (RekorLogs trustedMaterial) = Some msg \<longrightarrow>
            verifyEntry c trustedMaterial entitySignature verificationContent
              trustIntegratedTime False st entry = Inr st \<and>
            verifyEntries c trustedMaterial entitySignature verificationContent
              trustIntegratedTime False st0 (pre @ entry # post) =
            verifyEntries c trustedMaterial entitySignature verificationContent
              trustIntegratedTime False st0 (pre @ post)) \<and>
         (\<not> HasInclusionPromise entry \<and> HasInclusionProof entry \<and>
          verifyProof c tlogVerifier entry = None \<and>
          checkConsistency entitySignature verificationContent trustedMaterial entry = None \<longrightarrow>
            verifyEntry c trustedMaterial entitySignature verificationContent
              trustIntegratedTime False st entry =
            Inr (st\<lparr>logEntriesVerified := logEntriesVerified st + 1\<rparr>))"
proof (intro conjI impI)
  assume p: "HasInclusionPromise entry \<and>
    VerifySET c entry (RekorLogs trustedMaterial) = Some msg"
  have skip: "verifyEntry c trustedMaterial entitySignature verificationContent
      trustIntegratedTime False s entry = Inr s" for s
    using assms p by (simp add: verifyEntry_def verifyOffline_def verifyPromise_def)
  show "verifyEntry c trustedMaterial entitySignature verificationContent
      trustIntegratedTime False st entry = Inr st"
    by (rule skip)
  show "verifyEntries c trustedMaterial entitySignature verificationContent
      trustIntegratedTime False st0 (pre @ entry # post) =
    verifyEntries c trustedMaterial entitySignature verificationContent
      trustIntegratedTime False st0 (pre @ post)"
    by (simp add: verifyEntries_append skip split: sum.splits)
next
  assume "\<not> HasInclusionPromise entry \<and> HasInclusionProof entry \<and>
    verifyProof c tlogVerifier entry = None \<and>
    checkConsistency entitySignature verificationContent trustedMaterial entry = None"
  then show "verifyEntry c trustedMaterial entitySignature verificationContent
      trustIntegratedTime False st entry =
    Inr (st\<lparr>logEntriesVerified := logEntriesVerified st + 1\<rparr>)"
    using assms by (simp add: verifyEntry_def verifyOffline_def verifyPromise_def)
qed

text \<open>
  An entry with promise and proof whose SET fails is skipped; an entry with a proof only
  is counted, with no timestamp although integrated time is trusted.
\<close>

theorem failed_promise_skips_entry_witness:
  "verifyEntry exampleCollaborators exampleMaterial [7] exampleContent True False
     \<lparr>verifiedTimestamps = [], logEntriesVerified = 3\<rparr> (exampleEntry ''k'' 1 True True [1]) =
     Inr \<lparr>verifiedTimestamps = [], logEntriesVerified = 3\<rparr> \<and>
   verifyEntry exampleCollaborators exampleMaterial [7] exampleContent True False
     \<lparr>verifiedTimestamps = [], logEntriesVerified = 3\<rparr> (exampleEntry ''k'' 2 False True []) =
     Inr \<lparr>verifiedTimestamps = [], logEntriesVerified = 4\<rparr>"
proof -
  let ?a = "exampleEntry ''k'' 1 True True [1]"
  let ?b = "exampleEntry ''k'' 2 False True []"
  let ?st = "\<lparr>verifiedTimestamps = [], logEntriesVerified = 3\<rparr>"
  have va: "ValidateEntry exampleCollaborators ?a = None"
    and vb: "ValidateEntry exampleCollaborators ?b = None"
    by (simp_all add: example_defs)
  have ra: "RekorLogs exampleMaterial (EncodeToString (LogKeyID ?a)) = Some exampleLog"
    and rb: "RekorLogs exampleMaterial (EncodeToString (LogKeyID ?b)) = Some exampleLog"
    by (simp_all add: exampleMaterial_def exampleEntry_def EncodeToString_def hextable_def)
  have pa: "HasInclusionPromise ?a \<and>
      VerifySET exampleCollaborators ?a (RekorLogs exampleMaterial) = Some ''invalid SET''"
    by (simp add: example_defs)
  have pb: "\<not> HasInclusionPromise ?b \<and> HasInclusionProof ?b \<and>
      verifyProof exampleCollaborators exampleLog ?b = None \<and>
      checkConsistency [7] exampleContent exampleMaterial ?b = None"
    by (simp add: example_defs verifyProof_def getVerifier_def checkConsistency_def)
  have 1: "verifyEntry exampleCollaborators exampleMaterial [7] exampleContent True False
      ?st ?a = Inr ?st"
    using failed_promise_skips_entry [OF va ra, of "''invalid SET''" "[7]" exampleContent
        True ?st] pa
    by simp
  have 2: "verifyEntry exampleCollaborators exampleMaterial [7] exampleContent True False
      ?st ?b = Inr \<lparr>verifiedTimestamps = [], logEntriesVerified = 4\<rparr>"
    using failed_promise_skips_entry [OF vb rb, of "''invalid SET''" "[7]" exampleContent
        True ?st] pb
    by simp
  from 1 2 show ?thesis by simp
qed

text \<open>
  C1 as stated fails: this entry is structurally valid, of the recognized log, carries a
  promise and a proof, its SET verification fails, its inclusion proof verifies and it
  would pass the consistency checks; yet the loop body leaves the counter at 0, and with
  threshold 1 the operation fails for want of verified entries.
\<close>

theorem failed_promise_counterexample:
  "ValidateEntry exampleCollaborators (exampleEntry ''k'' 1 True True [1]) = None \<and>
   RekorLogs exampleMaterial (EncodeToString (LogKeyID (exampleEntry ''k'' 1 True True [1]))) =
     Some exampleLog \<and>
   HasInclusionPromise (exampleEntry ''k'' 1 True True [1]) \<and>
   HasInclusionProof (exampleEntry ''k'' 1 True True [1]) \<and>
   VerifySET exampleCollaborators (exampleEntry ''k'' 1 True True [1])
     (RekorLogs exampleMaterial) = Some ''invalid SET'' \<and>
   verifyProof exampleCollaborators exampleLog (exampleEntry ''k'' 1 True True [1]) = None \<and>
   checkConsistency [7] exampleContent exampleMaterial (exampleEntry ''k'' 1 True True [1]) =
     None \<and>
   verifyEntry exampleCollaborators exampleMaterial [7] exampleContent True False
     initialState (exampleEntry ''k'' 1 True True [1]) = Inr initialState \<and>
   VerifyArtifactTransparencyLog exampleCollaborators
     (exampleEntity [exampleEntry ''k'' 1 True True [1]]) exampleMaterial 1 True False =
     Inl (NotEnoughEntries 0 1)"
  by (simp add: VerifyArtifactTransparencyLog_def maxAllowedTlogEntries_def
        operation_defs example_defs)

section \<open>Consistency checks\<close>

text \<open>
  C2. Take an entry the loop reaches (the list passed admission, the entity gave its
  contents, the entries before it were processed without error, ending in state \<open>st\<close>)
  that is not skipped: it is structurally valid, its log is recognized, and the evidence
  step of the mode in force succeeded with timestamp list \<open>ts'\<close>. Then the three checks
  of lines 159 to 173 decide: a signature different from the artifact's aborts the whole
  operation with the signature error; else a key that does not compare equal aborts it
  with the certificate error; else an integrated time outside the validity window aborts
  it with the time error; and when all three pass the loop body counts the entry. And
  whenever the loop body, in any state and for any entry, returns with the counter
  changed, that entry has passed all three checks.
\<close>

theorem consistency_checks_enforced:
  assumes "TlogEntries entity = Inr (pre @ entry # post)"
    and "length (pre @ entry # post) \<le> 32"
    and "\<not> hasDuplicates (pre @ entry # post)"
    and "SignatureContent entity = Inr entitySignature"
    and "VerificationContent entity = Inr verificationContent"
    and "verifyEntries c trustedMaterial entitySignature verificationContent
           trustIntegratedTime online initialState pre = Inr st"
    and "ValidateEntry c entry = None"
    and "RekorLogs trustedMaterial (EncodeToString (LogKeyID entry)) = Some tlogVerifier"
    and "if online
         then verifyOnline c tlogVerifier trustIntegratedTime (verifiedTimestamps st) entry =
                Inr ts'
         else verifyOffline c trustedMaterial tlogVerifier trustIntegratedTime
                (verifiedTimestamps st) entry = Inr (Some ts')"
  shows "(Signature entry \<noteq> entitySignature \<longrightarrow>
            VerifyArtifactTransparencyLog c entity trustedMaterial logThreshold
              trustIntegratedTime online = Inl SignatureMismatch) \<and>
         (Signature entry = entitySignature \<and>
          \<not> CompareKey verificationContent (PublicKey entry) trustedMaterial \<longrightarrow>
            VerifyArtifactTransparencyLog c entity trustedMaterial logThreshold
              trustIntegratedTime online = Inl CertificateMismatch) \<and>
         (Signature entry = entitySignature \<and>
          CompareKey verificationContent (PublicKey entry) trustedMaterial \<and>
          \<not> ValidAtTime verificationContent (IntegratedTime entry) trustedMaterial \<longrightarrow>
            VerifyArtifactTransparencyLog c entity trustedMaterial logThreshold
              trustIntegratedTime online = Inl TimeOutsideValidity) \<and>
         (Signature entry = entitySignature \<and>
          CompareKey verificationContent (PublicKey entry) trustedMaterial \<and>
          ValidAtTime verificationContent (IntegratedTime entry) trustedMaterial \<longrightarrow>
            verifyEntry c trustedMaterial entitySignature verificationContent
              trustIntegratedTime online st entry =
            Inr \<lparr>verifiedTimestamps = ts',
                 logEntriesVerified = logEntriesVerified st + 1\<rparr>) \<and>
         (verifyEntry c' trustedMaterial' entitySignature' verificationContent'
            trustIntegratedTime' online' st1 entry' = Inr st2 \<and>
          logEntriesVerified st2 \<noteq> logEntriesVerified st1 \<longrightarrow>
            Signature entry' = entitySignature' \<and>
            CompareKey verificationContent' (PublicKey entry') trustedMaterial' \<and>
            ValidAtTime verificationContent' (IntegratedTime entry') trustedMaterial')"
proof -
  have body: "verifyEntry c trustedMaterial entitySignature verificationContent
      trustIntegratedTime online st entry =
    (case checkConsistency entitySignature verificationContent trustedMaterial entry of
       Some err \<Rightarrow> Inl err
     | None \<Rightarrow> Inr \<lparr>verifiedTimestamps = ts',
                    logEntriesVerified = logEntriesVerified st + 1\<rparr>)"
    using assms(7-9) by (cases online) (simp_all add: verifyEntry_def)
  have abort: "VerifyArtifactTransparencyLog c entity trustedMaterial logThreshold
      trustIntegratedTime online = Inl err"
    if "checkConsistency entitySignature verificationContent trustedMaterial entry = Some err"
    for err
    using that body by (intro operation_at_entry [OF assms(1-6)]) simp
  have 1: "Signature entry \<noteq> entitySignature \<longrightarrow>
      VerifyArtifactTransparencyLog c entity trustedMaterial logThreshold
        trustIntegratedTime online = Inl SignatureMismatch"
    by (auto intro!: abort simp: checkConsistency_def)
  have 2: "Signature entry = entitySignature \<and>
      \<not> CompareKey verificationContent (PublicKey entry) trustedMaterial \<longrightarrow>
      VerifyArtifactTransparencyLog c entity trustedMaterial logThreshold
        trustIntegratedTime online = Inl CertificateMismatch"
    by (auto intro!: abort simp: checkConsistency_def)
  have 3: "Signature entry = entitySignature \<and>
      CompareKey verificationContent (PublicKey entry) trustedMaterial \<and>
      \<not> ValidAtTime verificationContent (IntegratedTime entry) trustedMaterial \<longrightarrow>
      VerifyArtifactTransparencyLog c entity trustedMaterial logThreshold
        trustIntegratedTime online = Inl TimeOutsideValidity"
    by (auto intro!: abort simp: checkConsistency_def)
  have 4: "Signature entry = entitySignature \<and>
      CompareKey verificationContent (PublicKey entry) trustedMaterial \<and>
      ValidAtTime verificationContent (IntegratedTime entry) trustedMaterial \<longrightarrow>
      verifyEntry c trustedMaterial entitySignature verificationContent
        trustIntegratedTime online st entry =
      Inr \<lparr>verifiedTimestamps = ts', logEntriesVerified = logEntriesVerified st + 1\<rparr>"
    unfolding body by (simp add: checkConsistency_def)
  have 5: "verifyEntry c' trustedMaterial' entitySignature' verificationContent'
      trustIntegratedTime' online' st1 entry' = Inr st2 \<and>
      logEntriesVerified st2 \<noteq> logEntriesVerified st1 \<longrightarrow>
      Signature entry' = entitySignature' \<and>
      CompareKey verificationContent' (PublicKey entry') trustedMaterial' \<and>
      ValidAtTime verificationContent' (IntegratedTime entry') trustedMaterial'"
    by (auto simp: verifyEntry_def checkConsistency_def split: option.splits sum.splits if_splits)
  from 1 2 3 4 5 show ?thesis by blast
qed

text \<open>
  After one verified entry, a second entry with a wrong signature, a wrong key or a time
  outside the window aborts the operation although the threshold 1 was already met; an
  entry passing the three checks is counted.
\<close>

theorem consistency_checks_enforced_witness:
  "VerifyArtifactTransparencyLog exampleCollaborators
     (exampleEntity [exampleEntry ''k'' 1 False True [],
                     (exampleEntry ''k'' 2 False True [])\<lparr>Signature := [8]\<rparr>])
     exampleMaterial 1 True False = Inl SignatureMismatch \<and>
   VerifyArtifactTransparencyLog exampleCollaborators
     (exampleEntity [exampleEntry ''k'' 1 False True [],
                     (exampleEntry ''k'' 2 False True [])\<lparr>PublicKey := [1]\<rparr>])
     exampleMaterial 1 True False = Inl CertificateMismatch \<and>
   VerifyArtifactTransparencyLog exampleCollaborators
     (exampleEntity [exampleEntry ''k'' 1 False True [],
                     (exampleEntry ''k'' 2 False True [])\<lparr>IntegratedTime := 500\<rparr>])
     exampleMaterial 1 True False = Inl TimeOutsideValidity \<and>
   verifyEntry exampleCollaborators exampleMaterial [7] exampleContent True False
     \<lparr>verifiedTimestamps = [], logEntriesVerified = 1\<rparr> (exampleEntry ''k'' 2 False True []) =
     Inr \<lparr>verifiedTimestamps = [], logEntriesVerified = 2\<rparr>"
proof -
  let ?good = "exampleEntry ''k'' 1 False True []"
  let ?st = "\<lparr>verifiedTimestamps = [], logEntriesVerified = 1\<rparr>"
  have pre: "verifyEntries exampleCollaborators exampleMaterial [7] exampleContent True False
      initialState [?good] = Inr ?st"
    by (simp add: operation_defs example_defs)
  have use:
    "(Signature e \<noteq> [7] \<longrightarrow>
        VerifyArtifactTransparencyLog exampleCollaborators (exampleEntity [?good, e])
          exampleMaterial 1 True False = Inl SignatureMismatch) \<and>
     (Signature e = [7] \<and> \<not> CompareKey exampleContent (PublicKey e) exampleMaterial \<longrightarrow>
        VerifyArtifactTransparencyLog exampleCollaborators (exampleEntity [?good, e])
          exampleMaterial 1 True False = Inl CertificateMismatch) \<and>
     (Signature e = [7] \<and> CompareKey exampleContent (PublicKey e) exampleMaterial \<and>
      \<not> ValidAtTime exampleContent (IntegratedTime e) exampleMaterial \<longrightarrow>
        VerifyArtifactTransparencyLog exampleCollaborators (exampleEntity [?good, e])
          exampleMaterial 1 True False = Inl TimeOutsideValidity) \<and>
     (Signature e = [7] \<and> CompareKey exampleContent (PublicKey e) exampleMaterial \<and>
      ValidAtTime exampleContent (IntegratedTime e) exampleMaterial \<longrightarrow>
        verifyEntry exampleCollaborators exampleMaterial [7] exampleContent True False ?st e =
        Inr \<lparr>verifiedTimestamps = [], logEntriesVerified = 2\<rparr>)"
    if e: "LogKeyID e = ''k''" "LogIndex e = 2" "Body e = []" "\<not> HasInclusionPromise e"
      "HasInclusionProof e" for e
  proof -
    have a: "TlogEntries (exampleEntity [?good, e]) = Inr ([?good] @ e # [])"
      and s: "SignatureContent (exampleEntity [?good, e]) = Inr [7]"
      and v: "VerificationContent (exampleEntity [?good, e]) = Inr exampleContent"
      by (simp_all add: exampleEntity_def)
    have l: "length ([?good] @ e # []) \<le> 32" by simp
    have d: "\<not> hasDuplicates ([?good] @ e # [])"
      using e by (simp add: exampleEntry_def)
    have va: "ValidateEntry exampleCollaborators e = None"
      using e by (simp add: exampleCollaborators_def)
    have r: "RekorLogs exampleMaterial (EncodeToString (LogKeyID e)) = Some exampleLog"
      using e by (simp add: exampleMaterial_def EncodeToString_def hextable_def)
    have ev: "if False
        then verifyOnline exampleCollaborators exampleLog True (verifiedTimestamps ?st) e =
               Inr []
        else verifyOffline exampleCollaborators exampleMaterial exampleLog True
               (verifiedTimestamps ?st) e = Inr (Some [])"
      using e by (simp add: verifyOffline_def verifyPromise_def verifyProof_def
            getVerifier_def exampleCollaborators_def)
    note t = consistency_checks_enforced [OF a l d s v pre va r ev, of 1]
    from t [THEN conjunct1] t [THEN conjunct2, THEN conjunct1]
      t [THEN conjunct2, THEN conjunct2, THEN conjunct1]
      t [THEN conjunct2, THEN conjunct2, THEN conjunct2, THEN conjunct1]
    show ?thesis by simp
  qed
  have 1: "VerifyArtifactTransparencyLog exampleCollaborators
     (exampleEntity [?good, (exampleEntry ''k'' 2 False True [])\<lparr>Signature := [8]\<rparr>])
     exampleMaterial 1 True False = Inl SignatureMismatch"
    using use [of "(exampleEntry ''k'' 2 False True [])\<lparr>Signature := [8]\<rparr>"]
    by (simp add: exampleEntry_def)
  have 2: "VerifyArtifactTransparencyLog exampleCollaborators
     (exampleEntity [?good, (exampleEntry ''k'' 2 False True [])\<lparr>PublicKey := [1]\<rparr>])
     exampleMaterial 1 True False = Inl CertificateMismatch"
    using use [of "(exampleEntry ''k'' 2 False True [])\<lparr>PublicKey := [1]\<rparr>"]
    by (simp add: exampleEntry_def exampleContent_def)
  have 3: "VerifyArtifactTransparencyLog exampleCollaborators
     (exampleEntity [?good, (exampleEntry ''k'' 2 False True [])\<lparr>IntegratedTime := 500\<rparr>])
     exampleMaterial 1 True False = Inl TimeOutsideValidity"
    using use [of "(exampleEntry ''k'' 2 False True [])\<lparr>IntegratedTime := 500\<rparr>"]
    by (simp add: exampleEntry_def exampleContent_def)
  have 4: "verifyEntry exampleCollaborators exampleMaterial [7] exampleContent True False
     ?st (exampleEntry ''k'' 2 False True []) =
     Inr \<lparr>verifiedTimestamps = [], logEntriesVerified = 2\<rparr>"
    using use [of "exampleEntry ''k'' 2 False True []"]
    by (simp add: exampleEntry_def exampleContent_def)
  from 1 2 3 4 show ?thesis by simp
qed

section \<open>Missing inclusion evidence\<close>

text \<open>
  C7. In offline mode, an entry of a recognized log that carries neither an inclusion
  promise nor an inclusion proof is never skipped. Whenever the entity's entry list
  holds such an entry the whole operation returns an error. The error is the one of
  line 98: the loop body returns it for the entry once the entry is structurally valid,
  and the operation returns it when the list passed admission, the entity gave its
  contents and the entries before it were processed without error.
\<close>

theorem missing_inclusion_evidence_fatal:
  assumes "TlogEntries entity = Inr entries"
    and "entry \<in> set entries"
    and "RekorLogs trustedMaterial (EncodeToString (LogKeyID entry)) = Some tlogVerifier"
    and "\<not> HasInclusionPromise entry" and "\<not> HasInclusionProof entry"
  shows "(\<exists>err. VerifyArtifactTransparencyLog c entity trustedMaterial logThreshold
            trustIntegratedTime False = Inl err) \<and>
         (ValidateEntry c entry = None \<longrightarrow>
            verifyEntry c trustedMaterial entitySignature verificationContent
              trustIntegratedTime False st entry = Inl MissingInclusion) \<and>
         (entries = pre @ entry # post \<and> length entries \<le> 32 \<and> \<not> hasDuplicates entries \<and>
          SignatureContent entity = Inr entitySignature \<and>
          VerificationContent entity = Inr verificationContent \<and>
          verifyEntries c trustedMaterial entitySignature verificationContent
            trustIntegratedTime False initialState pre = Inr st \<and>
          ValidateEntry c entry = None \<longrightarrow>
            VerifyArtifactTransparencyLog c entity trustedMaterial logThreshold
              trustIntegratedTime False = Inl MissingInclusion)"
proof (intro conjI impI)
  have body: "verifyEntry c trustedMaterial sig vc trustIntegratedTime False s entry =
      (case ValidateEntry c entry of
         Some err \<Rightarrow> Inl (Propagated err)
       | None \<Rightarrow> Inl MissingInclusion)" for sig vc s
    using assms(3-5) by (simp add: verifyEntry_def verifyOffline_def split: option.splits)
  show "\<exists>err. VerifyArtifactTransparencyLog c entity trustedMaterial logThreshold
      trustIntegratedTime False = Inl err"
  proof (cases "length entries \<le> 32 \<and> \<not> hasDuplicates entries")
    case False
    then show ?thesis
      using assms(1)
      by (auto simp: VerifyArtifactTransparencyLog_def maxAllowedTlogEntries_def)
  next
    case True
    show ?thesis
    proof (cases "SignatureContent entity")
      case (Inl a)
      then show ?thesis
        using assms(1) True
        by (simp add: VerifyArtifactTransparencyLog_def maxAllowedTlogEntries_def)
    next
      case sig: (Inr sig)
      show ?thesis
      proof (cases "VerificationContent entity")
        case (Inl a)
        then show ?thesis
          using assms(1) True sig
          by (simp add: VerifyArtifactTransparencyLog_def maxAllowedTlogEntries_def)
      next
        case vc: (Inr vc)
        obtain err where "verifyEntry c trustedMaterial sig vc trustIntegratedTime False
            initialState entry = Inl err"
          using body [of sig vc initialState] by (cases "ValidateEntry c entry") auto
        from verifyEntries_fatal [OF assms(2) this]
        obtain err' where "verifyEntries c trustedMaterial sig vc trustIntegratedTime False
            initialState entries = Inl err'"
          by blast
        then show ?thesis
          using assms(1) True sig vc by (simp add: operation_after_admission)
      qed
    qed
  qed
  show "verifyEntry c trustedMaterial entitySignature verificationContent
      trustIntegratedTime False st entry = Inl MissingInclusion"
    if "ValidateEntry c entry = None"
    using that body by simp
  show "VerifyArtifactTransparencyLog c entity trustedMaterial logThreshold
      trustIntegratedTime False = Inl MissingInclusion"
    if h: "entries = pre @ entry # post \<and> length entries \<le> 32 \<and> \<not> hasDuplicates entries \<and>
      SignatureContent entity = Inr entitySignature \<and>
      VerificationContent entity = Inr verificationContent \<and>
      verifyEntries c trustedMaterial entitySignature verificationContent
        trustIntegratedTime False initialState pre = Inr st \<and>
      ValidateEntry c entry = None"
  proof -
    from h have eq: "entries = pre @ entry # post"
      and l: "length (pre @ entry # post) \<le> 32"
      and d: "\<not> hasDuplicates (pre @ entry # post)"
      and s: "SignatureContent entity = Inr entitySignature"
      and v: "VerificationContent entity = Inr verificationContent"
      and lp: "verifyEntries c trustedMaterial entitySignature verificationContent
        trustIntegratedTime False initialState pre = Inr st"
      and va: "ValidateEntry c entry = None"
      by auto
    have b: "verifyEntry c trustedMaterial entitySignature verificationContent
        trustIntegratedTime False st entry = Inl MissingInclusion"
      using va body by simp
    from assms(1) eq have a: "TlogEntries entity = Inr (pre @ entry # post)"
      by simp
    show ?thesis
      by (rule operation_at_entry [OF a l d s v lp b])
  qed
qed

text \<open>
  Between two entries that verify by inclusion proof, an entry with no evidence: the
  operation aborts although threshold 1 was met by the first entry.
\<close>

theorem missing_inclusion_evidence_fatal_witness:
  "VerifyArtifactTransparencyLog exampleCollaborators
     (exampleEntity [exampleEntry ''k'' 1 False True [], exampleEntry ''k'' 2 False False [],
                     exampleEntry ''k'' 3 False True []])
     exampleMaterial 1 False False = Inl MissingInclusion \<and>
   verifyEntry exampleCollaborators exampleMaterial [7] exampleContent False False
     \<lparr>verifiedTimestamps = [], logEntriesVerified = 1\<rparr> (exampleEntry ''k'' 2 False False []) =
     Inl MissingInclusion"
proof -
  let ?pre = "[exampleEntry ''k'' 1 False True []]"
  let ?e = "exampleEntry ''k'' 2 False False []"
  let ?post = "[exampleEntry ''k'' 3 False True []]"
  let ?st = "\<lparr>verifiedTimestamps = [], logEntriesVerified = 1\<rparr>"
  have a: "TlogEntries (exampleEntity (?pre @ ?e # ?post)) = Inr (?pre @ ?e # ?post)"
    by (simp add: exampleEntity_def)
  have m: "?e \<in> set (?pre @ ?e # ?post)" by simp
  have r: "RekorLogs exampleMaterial (EncodeToString (LogKeyID ?e)) = Some exampleLog"
    by (simp add: exampleMaterial_def exampleEntry_def EncodeToString_def hextable_def)
  have p: "\<not> HasInclusionPromise ?e" and q: "\<not> HasInclusionProof ?e"
    by (simp_all add: exampleEntry_def)
  have v: "ValidateEntry exampleCollaborators ?e = None"
    by (simp add: example_defs)
  have h: "?pre @ ?e # ?post = ?pre @ ?e # ?post \<and> length (?pre @ ?e # ?post) \<le> 32 \<and>
      \<not> hasDuplicates (?pre @ ?e # ?post) \<and>
      SignatureContent (exampleEntity (?pre @ ?e # ?post)) = Inr [7] \<and>
      VerificationContent (exampleEntity (?pre @ ?e # ?post)) = Inr exampleContent \<and>
      verifyEntries exampleCollaborators exampleMaterial [7] exampleContent False False
        initialState ?pre = Inr ?st \<and>
      ValidateEntry exampleCollaborators ?e = None"
    by (simp add: operation_defs example_defs)
  note t = missing_inclusion_evidence_fatal [OF a m r p q, of exampleCollaborators 1 False
      "[7]" exampleContent ?st ?pre ?post]
  from t [THEN conjunct2, THEN conjunct1] t [THEN conjunct2, THEN conjunct2] v h
  show ?thesis by simp
qed

section \<open>Online evidence\<close>

text \<open>
  C8. In online mode, take a structurally valid entry of a recognized log that the loop
  reaches (the list passed admission, the entity gave its contents, the entries before
  it were processed without error). When the client and the verifier are obtained and
  the query for the entry's log index returns an empty payload, the whole operation
  returns the not-found error of line 144 for that index. When the payload holds a
  record that fails the remote check, the whole operation returns the error of a
  failing record of the payload. And the online branch never skips: whenever the loop
  body returns without error for such an entry, it has counted the entry.
\<close>

theorem online_lookup_failures_fatal:
  assumes "TlogEntries entity = Inr (pre @ entry # post)"
    and "length (pre @ entry # post) \<le> 32"
    and "\<not> hasDuplicates (pre @ entry # post)"
    and "SignatureContent entity = Inr entitySignature"
    and "VerificationContent entity = Inr verificationContent"
    and "verifyEntries c trustedMaterial entitySignature verificationContent
           trustIntegratedTime True initialState pre = Inr st"
    and "ValidateEntry c entry = None"
    and "RekorLogs trustedMaterial (EncodeToString (LogKeyID entry)) = Some tlogVerifier"
  shows "(RekorClientGetter c (BaseURL tlogVerifier) = Inr client \<and>
          LoadVerifier c (PublicKey_tl tlogVerifier) (SignatureHashFunc tlogVerifier) =
            Inr verifier \<and>
          GetLogEntryByIndex c client (LogIndex entry) = Inr [] \<longrightarrow>
            VerifyArtifactTransparencyLog c entity trustedMaterial logThreshold
              trustIntegratedTime True = Inl (EntryNotFound (LogIndex entry))) \<and>
         (RekorClientGetter c (BaseURL tlogVerifier) = Inr client \<and>
          LoadVerifier c (PublicKey_tl tlogVerifier) (SignatureHashFunc tlogVerifier) =
            Inr verifier \<and>
          GetLogEntryByIndex c client (LogIndex entry) = Inr payload \<and>
          r \<in> set payload \<and> VerifyLogEntry c r verifier = Some msg \<longrightarrow>
            (\<exists>r' msg'. r' \<in> set payload \<and> VerifyLogEntry c r' verifier = Some msg' \<and>
               VerifyArtifactTransparencyLog c entity trustedMaterial logThreshold
                 trustIntegratedTime True = Inl (Propagated msg'))) \<and>
         (verifyEntry c trustedMaterial entitySignature verificationContent
            trustIntegratedTime True st entry = Inr st' \<longrightarrow>
            logEntriesVerified st' = logEntriesVerified st + 1)"
proof (intro conjI impI)
  note reach = operation_at_entry [OF assms(1-6)]
  show "VerifyArtifactTransparencyLog c entity trustedMaterial logThreshold
      trustIntegratedTime True = Inl (EntryNotFound (LogIndex entry))"
    if "RekorClientGetter c (BaseURL tlogVerifier) = Inr client \<and>
      LoadVerifier c (PublicKey_tl tlogVerifier) (SignatureHashFunc tlogVerifier) =
        Inr verifier \<and>
      GetLogEntryByIndex c client (LogIndex entry) = Inr []"
    using that assms(7,8)
    by (intro reach) (simp add: verifyEntry_def verifyOnline_def getVerifier_def)
  show "\<exists>r' msg'. r' \<in> set payload \<and> VerifyLogEntry c r' verifier = Some msg' \<and>
      VerifyArtifactTransparencyLog c entity trustedMaterial logThreshold
        trustIntegratedTime True = Inl (Propagated msg')"
    if h: "RekorClientGetter c (BaseURL tlogVerifier) = Inr client \<and>
      LoadVerifier c (PublicKey_tl tlogVerifier) (SignatureHashFunc tlogVerifier) =
        Inr verifier \<and>
      GetLogEntryByIndex c client (LogIndex entry) = Inr payload \<and>
      r \<in> set payload \<and> VerifyLogEntry c r verifier = Some msg"
  proof -
    from h have mem: "r \<in> set payload" and bad: "VerifyLogEntry c r verifier = Some msg"
      by simp_all
    from verifyPayload_Some [OF mem bad] obtain r' msg' where
      1: "r' \<in> set payload" and 2: "VerifyLogEntry c r' verifier = Some msg'" and
      3: "verifyPayload c payload verifier = Some (Propagated msg')"
      by blast
    from mem have ne: "payload \<noteq> []" by auto
    have "verifyEntry c trustedMaterial entitySignature verificationContent
        trustIntegratedTime True st entry = Inl (Propagated msg')"
      using h assms(7,8) 3 ne
      by (simp add: verifyEntry_def verifyOnline_def getVerifier_def)
    then have "VerifyArtifactTransparencyLog c entity trustedMaterial logThreshold
        trustIntegratedTime True = Inl (Propagated msg')"
      by (rule reach)
    with 1 2 show ?thesis by blast
  qed
  show "logEntriesVerified st' = logEntriesVerified st + 1"
    if "verifyEntry c trustedMaterial entitySignature verificationContent
      trustIntegratedTime True st entry = Inr st'"
    using that assms(7,8)
    by (auto simp: verifyEntry_def split: sum.splits option.splits)
qed

text \<open>
  After one verified entry: index 0 has no remote record, and the record at index 13
  fails the remote check; both abort the operation. The entry at index 2 is counted.
\<close>

theorem online_lookup_failures_fatal_witness:
  "VerifyArtifactTransparencyLog exampleCollaborators
     (exampleEntity [exampleEntry ''k'' 1 False False [], exampleEntry ''k'' 0 False False []])
     exampleMaterial 1 True True = Inl (EntryNotFound 0) \<and>
   VerifyArtifactTransparencyLog exampleCollaborators
     (exampleEntity [exampleEntry ''k'' 1 False False [], exampleEntry ''k'' 13 False False []])
     exampleMaterial 1 True True = Inl (Propagated ''record does not verify'') \<and>
   logEntriesVerified
     (projr (verifyEntry exampleCollaborators exampleMaterial [7] exampleContent True True
        \<lparr>verifiedTimestamps = [\<lparr>Time = 100, URI = ''https://rekor.example''\<rparr>],
         logEntriesVerified = 1\<rparr> (exampleEntry ''k'' 2 False False []))) = 2"
proof -
  let ?good = "exampleEntry ''k'' 1 False False []"
  let ?st = "\<lparr>verifiedTimestamps = [\<lparr>Time = 100, URI = ''https://rekor.example''\<rparr>],
               logEntriesVerified = 1\<rparr>"
  have pre: "verifyEntries exampleCollaborators exampleMaterial [7] exampleContent True True
      initialState [?good] = Inr ?st"
    by (simp add: operation_defs example_defs)
  have reach:
    "TlogEntries (exampleEntity [?good, exampleEntry ''k'' i False False []]) =
       Inr ([?good] @ exampleEntry ''k'' i False False [] # [])"
    "length ([?good] @ exampleEntry ''k'' i False False [] # []) \<le> 32"
    "SignatureContent (exampleEntity [?good, exampleEntry ''k'' i False False []]) = Inr [7]"
    "VerificationContent (exampleEntity [?good, exampleEntry ''k'' i False False []]) =
       Inr exampleContent"
    "ValidateEntry exampleCollaborators (exampleEntry ''k'' i False False []) = None"
    "RekorLogs exampleMaterial (EncodeToString (LogKeyID (exampleEntry ''k'' i False False []))) =
       Some exampleLog"
    "RekorClientGetter exampleCollaborators (BaseURL exampleLog) = Inr ()"
    "LoadVerifier exampleCollaborators (PublicKey_tl exampleLog) (SignatureHashFunc exampleLog) =
       Inr ()"
    for i
    by (simp_all add: example_defs EncodeToString_def hextable_def)
  have d: "\<not> hasDuplicates ([?good] @ exampleEntry ''k'' 0 False False [] # [])"
    "\<not> hasDuplicates ([?good] @ exampleEntry ''k'' 13 False False [] # [])"
    "\<not> hasDuplicates ([?good] @ exampleEntry ''k'' 2 False False [] # [])"
    by (simp_all add: exampleEntry_def)
  have g0: "GetLogEntryByIndex exampleCollaborators () (LogIndex (exampleEntry ''k'' 0 False False [])) =
      Inr []"
    by (simp add: example_defs)
  have g13: "GetLogEntryByIndex exampleCollaborators ()
      (LogIndex (exampleEntry ''k'' 13 False False [])) = Inr [13]"
    "(13 :: 64 word) \<in> set [13]"
    "VerifyLogEntry exampleCollaborators (13 :: 64 word) () = Some ''record does not verify''"
    by (simp_all add: example_defs)
  have 1: "VerifyArtifactTransparencyLog exampleCollaborators
      (exampleEntity [?good, exampleEntry ''k'' 0 False False []])
      exampleMaterial 1 True True = Inl (EntryNotFound 0)"
    using online_lookup_failures_fatal [where client = "()" and verifier = "()"
        and logThreshold = 1, OF reach(1,2) d(1) reach(3,4) pre reach(5,6),
        THEN conjunct1] reach(7,8) g0
    by (simp add: exampleEntry_def)
  have "\<exists>r' msg'. r' \<in> set [13] \<and>
      VerifyLogEntry exampleCollaborators r' () = Some msg' \<and>
      VerifyArtifactTransparencyLog exampleCollaborators
        (exampleEntity [?good, exampleEntry ''k'' 13 False False []])
        exampleMaterial 1 True True = Inl (Propagated msg')"
    using online_lookup_failures_fatal [where client = "()" and verifier = "()"
        and payload = "[13]" and r = 13 and msg = "''record does not verify''"
        and logThreshold = 1, OF reach(1,2) d(2) reach(3,4) pre reach(5,6),
        THEN conjunct2, THEN conjunct1] reach(7,8) g13
    by simp
  then have 2: "VerifyArtifactTransparencyLog exampleCollaborators
      (exampleEntity [?good, exampleEntry ''k'' 13 False False []])
      exampleMaterial 1 True True = Inl (Propagated ''record does not verify'')"
    by (auto simp: exampleCollaborators_def)
  have ok: "verifyEntry exampleCollaborators exampleMaterial [7] exampleContent True True
      ?st (exampleEntry ''k'' 2 False False []) =
      Inr (projr (verifyEntry exampleCollaborators exampleMaterial [7] exampleContent True True
        ?st (exampleEntry ''k'' 2 False False [])))"
    by (simp add: operation_defs example_defs)
  have 3: "logEntriesVerified
     (projr (verifyEntry exampleCollaborators exampleMaterial [7] exampleContent True True
        ?st (exampleEntry ''k'' 2 False False []))) = 2"
    using online_lookup_failures_fatal [OF reach(1,2) d(3) reach(3,4) pre reach(5,6),
        THEN conjunct2, THEN conjunct2] ok
    by simp
  from 1 2 3 show ?thesis by simp
qed

section \<open>Order of the entries\<close>

text \<open>
  C9. For an entity whose entry list passes the count and duplicate checks, replacing
  the list by any permutation of it (a list with the same multiset of entries) leaves
  the outcome of the operation the same: if the operation fails on the one it fails on
  the other, and if it succeeds on the one it succeeds on the other with a timestamp
  list that holds the same timestamps, each as often, in some order. The collaborators
  are functions of their arguments here, so an entry's verification does not depend on
  when it is run.
\<close>

theorem entry_order_irrelevant:
  assumes "TlogEntries entity = Inr entries" and "length entries \<le> 32"
    and "\<not> hasDuplicates entries"
    and "mset entries' = mset entries"
  shows "case VerifyArtifactTransparencyLog c entity trustedMaterial logThreshold
                trustIntegratedTime online of
           Inl err \<Rightarrow>
             \<exists>err'. VerifyArtifactTransparencyLog c (entity\<lparr>TlogEntries := Inr entries'\<rparr>)
                      trustedMaterial logThreshold trustIntegratedTime online = Inl err'
         | Inr ts \<Rightarrow>
             \<exists>ts'. VerifyArtifactTransparencyLog c (entity\<lparr>TlogEntries := Inr entries'\<rparr>)
                     trustedMaterial logThreshold trustIntegratedTime online = Inr ts' \<and>
                   mset ts' = mset ts"
proof -
  let ?entity' = "entity\<lparr>TlogEntries := Inr entries'\<rparr>"
  have a': "TlogEntries ?entity' = Inr entries'" by simp
  have l': "length entries' \<le> 32"
    using assms(2,4) mset_eq_length [of entries' entries] by simp
  have d': "\<not> hasDuplicates entries'"
    using assms(3,4) hasDuplicates_mset [of entries' entries] by simp
  show ?thesis
  proof (cases "SignatureContent entity")
    case (Inl m)
    then show ?thesis
      using assms(1-3) a' l' d'
      by (simp add: VerifyArtifactTransparencyLog_def maxAllowedTlogEntries_def)
  next
    case sig: (Inr sig)
    show ?thesis
    proof (cases "VerificationContent entity")
      case (Inl m)
      then show ?thesis
        using assms(1-3) a' l' d' sig
        by (simp add: VerifyArtifactTransparencyLog_def maxAllowedTlogEntries_def)
    next
      case vc: (Inr vc)
      have s': "SignatureContent ?entity' = Inr sig" and v': "VerificationContent ?entity' = Inr vc"
        using sig vc by simp_all
      note 1 = operation_after_admission [OF assms(1-3) sig vc,
          of c trustedMaterial logThreshold trustIntegratedTime online]
      note 2 = operation_after_admission [OF a' l' d' s' v',
          of c trustedMaterial logThreshold trustIntegratedTime online]
      from verifyEntries_permuted [OF assms(4), of c trustedMaterial sig vc
          trustIntegratedTime online]
      show ?thesis
        unfolding 1 2 by (auto split: sum.splits)
    qed
  qed
qed

text \<open>
  Three entries, two of which yield a timestamp, in two orders: both succeed, with the
  two timestamps in different order.
\<close>

theorem entry_order_irrelevant_witness:
  "VerifyArtifactTransparencyLog exampleCollaborators
     (exampleEntity [exampleEntry ''k'' 1 True False [], exampleEntry ''z'' 5 False True [],
                     (exampleEntry ''k'' 2 True True [])\<lparr>IntegratedTime := 120\<rparr>])
     exampleMaterial 2 True False =
     Inr [\<lparr>Time = 100, URI = ''https://rekor.example''\<rparr>,
          \<lparr>Time = 120, URI = ''https://rekor.example''\<rparr>] \<and>
   VerifyArtifactTransparencyLog exampleCollaborators
     (exampleEntity [(exampleEntry ''k'' 2 True True [])\<lparr>IntegratedTime := 120\<rparr>,
                     exampleEntry ''k'' 1 True False [], exampleEntry ''z'' 5 False True []])
     exampleMaterial 2 True False =
     Inr [\<lparr>Time = 120, URI = ''https://rekor.example''\<rparr>,
          \<lparr>Time = 100, URI = ''https://rekor.example''\<rparr>] \<and>
   mset [\<lparr>Time = 120, URI = ''https://rekor.example''\<rparr>,
         \<lparr>Time = 100, URI = ''https://rekor.example''\<rparr>] =
   mset [\<lparr>Time = 100, URI = ''https://rekor.example''\<rparr>,
         \<lparr>Time = 120, URI = ''https://rekor.example''\<rparr>]"
proof -
  let ?a = "exampleEntry ''k'' 1 True False []"
  let ?b = "exampleEntry ''z'' 5 False True []"
  let ?c = "(exampleEntry ''k'' 2 True True [])\<lparr>IntegratedTime := 120\<rparr>"
  let ?t = "\<lparr>Time = 100, URI = ''https://rekor.example''\<rparr>"
  let ?u = "\<lparr>Time = 120, URI = ''https://rekor.example''\<rparr>"
  have a: "TlogEntries (exampleEntity [?a, ?b, ?c]) = Inr [?a, ?b, ?c]"
    by (simp add: exampleEntity_def)
  have l: "length [?a, ?b, ?c] \<le> 32" by simp
  have d: "\<not> hasDuplicates [?a, ?b, ?c]" by (simp add: exampleEntry_def)
  have m: "mset [?c, ?a, ?b] = mset [?a, ?b, ?c]" by (simp add: add.commute)
  have r: "VerifyArtifactTransparencyLog exampleCollaborators (exampleEntity [?a, ?b, ?c])
      exampleMaterial 2 True False = Inr [?t, ?u]"
    by (simp add: VerifyArtifactTransparencyLog_def maxAllowedTlogEntries_def
          operation_defs example_defs)
  have r': "VerifyArtifactTransparencyLog exampleCollaborators (exampleEntity [?c, ?a, ?b])
      exampleMaterial 2 True False = Inr [?u, ?t]"
    by (simp add: VerifyArtifactTransparencyLog_def maxAllowedTlogEntries_def
          operation_defs example_defs)
  have e: "(exampleEntity [?a, ?b, ?c])\<lparr>TlogEntries := Inr [?c, ?a, ?b]\<rparr> =
      exampleEntity [?c, ?a, ?b]"
    by (simp add: exampleEntity_def)
  from entry_order_irrelevant [OF a l d m, of exampleCollaborators exampleMaterial 2 True False]
  have "mset [?u, ?t] = mset [?t, ?u]"
    unfolding r e r' by simp
  with r r' show ?thesis by simp
qed

end
